theory Spec2Isabelle
  imports Complex_Main "HOL-Library.Sublist" "HOL-Library.Char_ord" "HOL-Library.List_Lexorder"
begin

section \<open>Helper functions of \<^verbatim>\<open>ocs_ci/helpers/helpers.py\<close>\<close>

text \<open>
  The development embeds the state-waiting, batch-orchestration and log-timing helpers of
  \<^verbatim>\<open>helpers.py\<close>. Python exceptions are values of the type \<open>error\<close>; a function that may
  raise returns \<open>error + 'a\<close>, with \<open>Inl\<close> for the exception. Calls to collaborators
  (the orchestrator client, the pod-log reader) are inputs of the model: a record of
  functions giving the outcome of each call, and a trace of the calls made.
\<close>

subsection \<open>Exceptions\<close>

datatype error =
    TimeoutExpiredError
  | ResourceWrongStatusException string string
  | CommandFailed string
  | UnexpectedBehaviour "string list"
  | IndexError
  | ValueError
  | TypeError
  | UnboundLocalError
  | AttributeError

subsection \<open>\<^verbatim>\<open>create_unique_resource_name\<close>\<close>

text \<open>
  \<^verbatim>\<open>name = f"{resource_type}-{resource_description[:23]}-{uuid4().hex}"\<close>,
  \<^verbatim>\<open>return name if len(name) < 40 else name[:40]\<close>.
  The random part \<^verbatim>\<open>uuid4().hex\<close> is the argument \<open>hex\<close>.
\<close>

definition create_unique_resource_name :: "string \<Rightarrow> string \<Rightarrow> string \<Rightarrow> string" where
  "create_unique_resource_name resource_description resource_type hex =
     (let name = resource_type @ ''-'' @ take 23 resource_description @ ''-'' @ hex
      in if length name < 40 then name else take 40 name)"

subsection \<open>\<^verbatim>\<open>wait_for_resource_state\<close>\<close>

text \<open>
  A resource object carries its name and kind. Its collaborators are
  \<^verbatim>\<open>resource.ocp.wait_for_resource\<close>, \<^verbatim>\<open>resource.reload\<close>, \<^verbatim>\<open>resource.describe\<close> and
  \<^verbatim>\<open>resource.delete\<close>; the record \<open>backend\<close> gives what each of them does for given
  arguments: \<open>None\<close> (or \<open>Inr\<close>) when the call returns, the exception otherwise.
  Every call made is appended to a trace.
\<close>

record resource =
  name :: string
  kind :: string

text \<open>The keyword arguments that \<^verbatim>\<open>create_pods_parallel\<close> hands to \<^verbatim>\<open>create_pod\<close>.\<close>

record pod_request =
  interface_type :: string
  pvc_name :: string
  do_reload :: bool
  namespace :: string
  raw_block_pv :: bool
  pod_dict_path :: "string option"
  sa_name :: "string option"
  dc_deployment :: bool
  node_selector :: "(string \<times> string) list option"

datatype call =
    WaitForResource string string int
  | Reload string
  | Describe string
  | Delete string
  | CreateMultiplePvcs string string
  | CreatePod string

record backend =
  wait_for_resource :: "string \<Rightarrow> string \<Rightarrow> int \<Rightarrow> error option"
  reload :: "string \<Rightarrow> error option"
  describe :: "string \<Rightarrow> error + string"
  delete :: "string \<Rightarrow> error option"
  create_multiple_pvcs :: "string \<Rightarrow> string \<Rightarrow> nat \<Rightarrow> string \<Rightarrow> string \<Rightarrow> error + resource list"
  create_pod :: "pod_request \<Rightarrow> error + resource option"

text \<open>The two names of \<^verbatim>\<open>ocs_ci.ocs.constants\<close> that the function compares with.\<close>

record constants =
  DEFAULT_STORAGECLASS_CEPHFS :: string
  DEFAULT_STORAGECLASS_RBD :: string
  CSI_RBD_RAW_BLOCK_POD_YAML :: string

text \<open>
  The function returns \<^verbatim>\<open>None\<close> when the state is reached (or for a default storage
  class), so its value is \<open>unit\<close>. Only \<^verbatim>\<open>TimeoutExpiredError\<close> is caught; the handler
  calls \<^verbatim>\<open>resource.reload()\<close> and then builds
  \<^verbatim>\<open>ResourceWrongStatusException(resource.name, resource.describe())\<close>, neither call
  being guarded.
\<close>

definition wait_for_resource_state ::
  "constants \<Rightarrow> backend \<Rightarrow> resource \<Rightarrow> string \<Rightarrow> int \<Rightarrow> call list \<Rightarrow> (error + unit) \<times> call list" where
  "wait_for_resource_state c b r state timeout tr =
     (if name r = DEFAULT_STORAGECLASS_CEPHFS c \<or> name r = DEFAULT_STORAGECLASS_RBD c
      then (Inr (), tr)
      else
        let tr1 = tr @ [WaitForResource state (name r) timeout] in
        case wait_for_resource b state (name r) timeout of
          None \<Rightarrow> (Inr (), tr1)
        | Some TimeoutExpiredError \<Rightarrow>
            (let tr2 = tr1 @ [Reload (name r)] in
             case reload b (name r) of
               Some e \<Rightarrow> (Inl e, tr2)
             | None \<Rightarrow>
                 (let tr3 = tr2 @ [Describe (name r)] in
                  case describe b (name r) of
                    Inl e \<Rightarrow> (Inl e, tr3)
                  | Inr d \<Rightarrow> (Inl (ResourceWrongStatusException (name r) d), tr3)))
        | Some e \<Rightarrow> (Inl e, tr1))"

subsection \<open>Batch creation and deletion\<close>

text \<open>
  \<^verbatim>\<open>[f.result() for f in futures]\<close>: the futures were all submitted inside a
  \<^verbatim>\<open>with ThreadPoolExecutor()\<close> block, which returns only when every task has ended, so
  each future holds a value or an exception; \<^verbatim>\<open>result()\<close> returns the value or raises
  the exception, and the comprehension stops at the first future, in submission order, that
  raises.
\<close>

fun future_results :: "(error + 'a) list \<Rightarrow> error + 'a list" where
  "future_results [] = Inr []"
| "future_results (Inl e # fs) = Inl e"
| "future_results (Inr v # fs) =
     (case future_results fs of Inl e \<Rightarrow> Inl e | Inr vs \<Rightarrow> Inr (v # vs))"

text \<open>\<^verbatim>\<open>[item for sublist in list_to_converge for item in sublist]\<close>\<close>

definition converge_lists :: "'a list list \<Rightarrow> 'a list" where
  "converge_lists list_to_converge = concat list_to_converge"

text \<open>
  The Python values that the final membership test \<^verbatim>\<open>False in [...]\<close> compares:
  \<^verbatim>\<open>None\<close> (what \<^verbatim>\<open>wait_for_resource_state\<close> returns), booleans and resource objects.
  \<^verbatim>\<open>in\<close> compares with \<^verbatim>\<open>==\<close>, and neither \<^verbatim>\<open>None\<close> nor an object equals \<^verbatim>\<open>False\<close>.
\<close>

datatype pyval = PyNone | PyBool bool | PyObj resource

definition py_in :: "pyval \<Rightarrow> pyval list \<Rightarrow> bool" where
  "py_in v vs = (v \<in> set vs)"

text \<open>
  The second wave: one \<^verbatim>\<open>wait_for_resource_state\<close> task per object. Each task runs to
  its end whatever the others do; the calls of the tasks are recorded in submission order
  (the collaborators answer by their arguments alone, so the interleaving of the workers
  does not change any outcome).
\<close>

fun submit_waits ::
  "constants \<Rightarrow> backend \<Rightarrow> resource list \<Rightarrow> string \<Rightarrow> int \<Rightarrow> call list
     \<Rightarrow> (error + unit) list \<times> call list" where
  "submit_waits c b [] state timeout tr = ([], tr)"
| "submit_waits c b (obj # objs) state timeout tr =
     (let (res, tr1) = wait_for_resource_state c b obj state timeout tr;
          (rest, tr2) = submit_waits c b objs state timeout tr1
      in (res # rest, tr2))"

definition create_multiple_pvc_parallel ::
  "constants \<Rightarrow> backend \<Rightarrow> resource \<Rightarrow> string \<Rightarrow> nat \<Rightarrow> string \<Rightarrow> string list \<Rightarrow> call list
     \<Rightarrow> (error + resource list) \<times> call list" where
  "create_multiple_pvc_parallel c b sc_obj ns number_of_pvc sz access_modes tr =
     (let result_lists =
            map (\<lambda>mode. create_multiple_pvcs b (name sc_obj) ns number_of_pvc mode sz)
              access_modes;
          tr1 = tr @ map (\<lambda>mode. CreateMultiplePvcs (name sc_obj) mode) access_modes
      in case future_results result_lists of
           Inl e \<Rightarrow> (Inl e, tr1)
         | Inr result_list \<Rightarrow>
             (let pvc_objs_list = converge_lists result_list;
                  (obj_status_list, tr2) = submit_waits c b pvc_objs_list ''Bound'' 90 tr1
              in case future_results obj_status_list of
                   Inl e \<Rightarrow> (Inl e, tr2)
                 | Inr statuses \<Rightarrow>
                     if py_in (PyBool False) (map (\<lambda>u. PyNone) statuses)
                     then (Inl TimeoutExpiredError, tr2)
                     else (Inr pvc_objs_list, tr2)))"

text \<open>
  \<^verbatim>\<open>create_pod\<close> returns the pod object, except in its \<^verbatim>\<open>dc_deployment\<close> branch, where it
  returns \<^verbatim>\<open>None\<close> when no pod of the deployment is found; so the collaborator yields a
  \<open>resource option\<close>. \<^verbatim>\<open>wait_for_resource_state\<close> begins by reading \<^verbatim>\<open>resource.name\<close>,
  which raises \<^verbatim>\<open>AttributeError\<close> for \<^verbatim>\<open>None\<close>, before any call is made.
\<close>

fun submit_pod_waits ::
  "constants \<Rightarrow> backend \<Rightarrow> resource option list \<Rightarrow> string \<Rightarrow> int \<Rightarrow> call list
     \<Rightarrow> (error + unit) list \<times> call list" where
  "submit_pod_waits c b [] state timeout tr = ([], tr)"
| "submit_pod_waits c b (obj # objs) state timeout tr =
     (let (res, tr1) = (case obj of
                          None \<Rightarrow> (Inl AttributeError, tr)
                        | Some r \<Rightarrow> wait_for_resource_state c b r state timeout tr);
          (rest, tr2) = submit_pod_waits c b objs state timeout tr1
      in (res # rest, tr2))"

text \<open>
  \<^verbatim>\<open>create_pods_parallel\<close> replaces the pod yaml path when \<^verbatim>\<open>raw_block_pv\<close> is set and
  \<^verbatim>\<open>not pod_dict_path\<close> holds, that is for \<^verbatim>\<open>None\<close> and for the empty string. It keeps
  appending to the one list \<^verbatim>\<open>future_pod_objs\<close>: the final comprehension reads the
  creation futures again and then the wait futures.
\<close>

definition create_pods_parallel ::
  "constants \<Rightarrow> backend \<Rightarrow> resource list \<Rightarrow> string \<Rightarrow> string \<Rightarrow> string option \<Rightarrow> string option
     \<Rightarrow> bool \<Rightarrow> bool \<Rightarrow> (string \<times> string) list option \<Rightarrow> call list
     \<Rightarrow> (error + resource option list) \<times> call list" where
  "create_pods_parallel c b pvc_list ns interface dict_path sa raw_block dc selector tr =
     (let wait_time = 300;
          dict_path1 = (if raw_block \<and> (dict_path = None \<or> dict_path = Some [])
                        then Some (CSI_RBD_RAW_BLOCK_POD_YAML c) else dict_path);
          future_pod_objs =
            map (\<lambda>pvc_obj. create_pod b
                   \<lparr>interface_type = interface, pvc_name = name pvc_obj, do_reload = False,
                    namespace = ns, raw_block_pv = raw_block, pod_dict_path = dict_path1,
                    sa_name = sa, dc_deployment = dc, node_selector = selector\<rparr>) pvc_list;
          tr1 = tr @ map (\<lambda>pvc_obj. CreatePod (name pvc_obj)) pvc_list
      in case future_results future_pod_objs of
           Inl e \<Rightarrow> (Inl e, tr1)
         | Inr pod_objs \<Rightarrow>
             (let (waits, tr2) = submit_pod_waits c b pod_objs ''Running'' wait_time tr1
              in case future_results
                        (map (map_sum id (case_option PyNone PyObj)) future_pod_objs
                         @ map (map_sum id (\<lambda>u. PyNone)) waits) of
                   Inl e \<Rightarrow> (Inl e, tr2)
                 | Inr vals \<Rightarrow>
                     if py_in (PyBool False) vals
                     then (Inl TimeoutExpiredError, tr2)
                     else (Inr pod_objs, tr2)))"

text \<open>
  \<^verbatim>\<open>delete_objs_parallel\<close> starts one \<^verbatim>\<open>threading.Thread(target=obj.delete)\<close> per
  object and joins them all. An exception that ends a thread is handed to
  \<^verbatim>\<open>threading.excepthook\<close>; \<^verbatim>\<open>join\<close> returns \<^verbatim>\<open>None\<close> all the same. The state is the
  trace of calls and the list of exceptions the hook received.
\<close>

definition run_delete_thread :: "backend \<Rightarrow> resource \<Rightarrow> call list \<times> error list \<Rightarrow> call list \<times> error list" where
  "run_delete_thread b obj st =
     (case st of (tr, hooked) \<Rightarrow>
        (tr @ [Delete (name obj)],
         case delete b (name obj) of None \<Rightarrow> hooked | Some e \<Rightarrow> hooked @ [e]))"

definition delete_objs_parallel ::
  "backend \<Rightarrow> resource list \<Rightarrow> call list \<times> error list \<Rightarrow> (error + bool) \<times> call list \<times> error list" where
  "delete_objs_parallel b obj_list st =
     (let threads = foldl (\<lambda>s obj. run_delete_thread b obj s) st obj_list
      in (Inr True, threads))"

subsection \<open>Strings\<close>

text \<open>
  A Python \<^verbatim>\<open>str\<close> is a \<open>string\<close>; the characters are the 256 code points of
  \<open>char\<close>, so the development covers log texts and names of code points below 256.
  \<open>is_space\<close> holds for the code points below 256 that \<^verbatim>\<open>\s\<close> matches in a \<^verbatim>\<open>str\<close>
  pattern (those for which \<^verbatim>\<open>str.isspace\<close> holds), \<open>is_digit\<close> for those that \<^verbatim>\<open>\d\<close>
  matches. \<open>split_on\<close> is \<^verbatim>\<open>s.split(sep)\<close> for a separator of one character (a text
  without the separator gives the one-element list), \<open>join_with\<close> is \<^verbatim>\<open>sep.join(ws)\<close>,
  \<open>py_int\<close> is \<^verbatim>\<open>int(s)\<close> on a text of digits and blanks, \<open>str_nat\<close> is \<^verbatim>\<open>str(n)\<close>,
  and \<open>lower\<close> is \<^verbatim>\<open>s.lower()\<close> on the letters \<^verbatim>\<open>A\<close> to \<^verbatim>\<open>Z\<close> (the functions compare
  its result with \<^verbatim>\<open>start\<close> and \<^verbatim>\<open>end\<close> only).
\<close>

definition newline :: char where
  "newline = CHR 0x0A"

definition is_digit :: "char \<Rightarrow> bool" where
  "is_digit c = (CHR ''0'' \<le> c \<and> c \<le> CHR ''9'')"

definition digit_val :: "char \<Rightarrow> nat" where
  "digit_val c = of_char c - 48"

definition is_space :: "char \<Rightarrow> bool" where
  "is_space c = (of_char c \<in> {9, 10, 11, 12, 13, 28, 29, 30, 31, 32, 133, 160 :: nat})"

definition lower_char :: "char \<Rightarrow> char" where
  "lower_char c = (if CHR ''A'' \<le> c \<and> c \<le> CHR ''Z'' then char_of (of_char c + (32::nat)) else c)"

definition lower :: "string \<Rightarrow> string" where
  "lower s = map lower_char s"

fun split_on :: "char \<Rightarrow> string \<Rightarrow> string list" where
  "split_on sep [] = [[]]"
| "split_on sep (x # xs) =
     (if x = sep then [] # split_on sep xs
      else (case split_on sep xs of [] \<Rightarrow> [[x]] | w # ws \<Rightarrow> (x # w) # ws))"

fun join_with :: "string \<Rightarrow> string list \<Rightarrow> string" where
  "join_with sep [] = []"
| "join_with sep [w] = w"
| "join_with sep (w # ws) = w @ sep @ join_with sep ws"

definition py_int :: "string \<Rightarrow> nat" where
  "py_int s = foldl (\<lambda>n c. 10 * n + digit_val c) 0 (filter (\<lambda>c. \<not> is_space c) s)"

fun str_nat :: "nat \<Rightarrow> string" where
  "str_nat n = (if n < 10 then [char_of (48 + n)] else str_nat (n div 10) @ [char_of (48 + n mod 10)])"

declare str_nat.simps [simp del]

subsection \<open>re.search\<close>

text \<open>
  The patterns of the functions are built by interpolation, for instance
  \<^verbatim>\<open>f"provision.*{name}.*started"\<close> and \<^verbatim>\<open>f'delete "{pv}": started'\<close>. A pattern is a
  list of items: a literal character, \<^verbatim>\<open>.\<close> (any character but a newline) and \<^verbatim>\<open>.*\<close>.
  \<open>match_here\<close> matches a pattern at the beginning of a text, \<open>re_search\<close> anywhere in it,
  as \<^verbatim>\<open>re.search\<close> does.

  The name is interpolated unescaped, so it is itself a pattern. \<open>name_pattern\<close> reads it as
  such for the names in which \<^verbatim>\<open>.\<close> is the only character with a special meaning, and
  \<open>regex_free\<close> holds for exactly those names: the ones without any of the characters
  \<^verbatim>\<open>^ $ * + ? { } [ ] \ | ( )\<close>. Names of Kubernetes objects are of this kind. The
  development says nothing about other names, and every statement about an arbitrary name
  assumes \<open>regex_free\<close>.
\<close>

datatype re_item = Lit char | AnyChar | AnyStar

fun match_here :: "re_item list \<Rightarrow> string \<Rightarrow> bool" where
  "match_here [] s = True"
| "match_here (Lit c # p) [] = False"
| "match_here (Lit c # p) (x # s) = (x = c \<and> match_here p s)"
| "match_here (AnyChar # p) [] = False"
| "match_here (AnyChar # p) (x # s) = (x \<noteq> newline \<and> match_here p s)"
| "match_here (AnyStar # p) [] = match_here p []"
| "match_here (AnyStar # p) (x # s) =
     (match_here p (x # s) \<or> (x \<noteq> newline \<and> match_here (AnyStar # p) s))"

fun re_search :: "re_item list \<Rightarrow> string \<Rightarrow> bool" where
  "re_search p [] = match_here p []"
| "re_search p (x # s) = (match_here p (x # s) \<or> re_search p s)"

definition literal :: "string \<Rightarrow> re_item list" where
  "literal s = map Lit s"

definition name_pattern :: "string \<Rightarrow> re_item list" where
  "name_pattern n = map (\<lambda>c. if c = CHR ''.'' then AnyChar else Lit c) n"

definition re_special :: "char \<Rightarrow> bool" where
  "re_special c = (c \<in> set ''^$*+?{}[]|()'' \<or> c = CHR 0x5C)"

definition regex_free :: "string \<Rightarrow> bool" where
  "regex_free n = list_all (\<lambda>c. \<not> re_special c) n"

definition provision_pattern :: "string \<Rightarrow> string \<Rightarrow> re_item list" where
  "provision_pattern n operation =
     literal ''provision'' @ [AnyStar] @ name_pattern n @ [AnyStar] @ literal operation"

definition delete_pattern :: "string \<Rightarrow> string \<Rightarrow> re_item list" where
  "delete_pattern pv operation =
     literal ''delete \"'' @ name_pattern pv @ literal ''\": '' @ literal operation"

subsection \<open>strptime with DATE_TIME_FORMAT\<close>

text \<open>
  \<^verbatim>\<open>DATE_TIME_FORMAT = "%Y I%m%d %H:%M:%S.%f"\<close>. \<^verbatim>\<open>datetime.strptime\<close> turns the format
  into a regular expression, compiled with \<^verbatim>\<open>IGNORECASE\<close>: each directive becomes a named
  group (\<^verbatim>\<open>%Y\<close> four digits, \<^verbatim>\<open>%m\<close> \<^verbatim>\<open>1[0-2]|0[1-9]|[1-9]\<close>, \<^verbatim>\<open>%d\<close>
  \<^verbatim>\<open>3[0-1]|[1-2]\d|0[1-9]|[1-9]| [1-9]\<close>, \<^verbatim>\<open>%H\<close> \<^verbatim>\<open>2[0-3]|[0-1]\d|\d\<close>, \<^verbatim>\<open>%M\<close>
  \<^verbatim>\<open>[0-5]\d|\d\<close>, \<^verbatim>\<open>%S\<close> \<^verbatim>\<open>6[0-1]|[0-5]\d|\d\<close>, \<^verbatim>\<open>%f\<close> one to six digits), each
  blank of the format becomes \<^verbatim>\<open>\s+\<close>, and the other characters stand for themselves.
  The text must match from its beginning, and a rest after the match is an error
  (\<^verbatim>\<open>unconverted data remains\<close>).

  A matcher returns the ways in which a text begins with a match, in the order in which a
  backtracking engine tries them, each with the rest of the text; \<open>format_regex\<close> is the
  whole expression, and its first result is the match that \<^verbatim>\<open>strptime\<close> uses. A second
  61, a day that the month does not have and a year 0 are rejected when the date is built.
  Every failure is a \<^verbatim>\<open>ValueError\<close>.
\<close>

type_synonym matcher = "string \<Rightarrow> (string \<times> string) list"

definition one_of :: "(char \<Rightarrow> bool) \<Rightarrow> matcher" where
  "one_of P s = (case s of [] \<Rightarrow> [] | x # r \<Rightarrow> if P x then [([x], r)] else [])"

definition then_m :: "matcher \<Rightarrow> matcher \<Rightarrow> matcher" where
  "then_m p q s = concat (map (\<lambda>(a, r). map (\<lambda>(b, r'). (a @ b, r')) (q r)) (p s))"

definition or_m :: "matcher \<Rightarrow> matcher \<Rightarrow> matcher" where
  "or_m p q s = p s @ q s"

definition in_range :: "char \<Rightarrow> char \<Rightarrow> matcher" where
  "in_range lo hi = one_of (\<lambda>c. lo \<le> c \<and> c \<le> hi)"

definition chr :: "char \<Rightarrow> matcher" where
  "chr c = one_of (\<lambda>x. lower_char x = lower_char c)"

definition digit :: matcher where
  "digit = in_range CHR ''0'' CHR ''9''"

fun upto_m :: "nat \<Rightarrow> matcher \<Rightarrow> matcher" where
  "upto_m 0 p s = [([], s)]"
| "upto_m (Suc n) p s = then_m p (upto_m n p) s @ [([], s)]"

fun star_space :: matcher where
  "star_space [] = [([], [])]"
| "star_space (x # r) =
     (if is_space x then map (\<lambda>(a, r'). (x # a, r')) (star_space r) @ [([], x # r)]
      else [([], x # r)])"

definition plus_space :: matcher where
  "plus_space = then_m (one_of is_space) star_space"

definition re_Y :: matcher where
  "re_Y = then_m digit (then_m digit (then_m digit digit))"

definition re_m :: matcher where
  "re_m = or_m (then_m (chr CHR ''1'') (in_range CHR ''0'' CHR ''2''))
         (or_m (then_m (chr CHR ''0'') (in_range CHR ''1'' CHR ''9''))
               (in_range CHR ''1'' CHR ''9''))"

definition re_d :: matcher where
  "re_d = or_m (then_m (chr CHR ''3'') (in_range CHR ''0'' CHR ''1''))
         (or_m (then_m (in_range CHR ''1'' CHR ''2'') digit)
         (or_m (then_m (chr CHR ''0'') (in_range CHR ''1'' CHR ''9''))
         (or_m (in_range CHR ''1'' CHR ''9'')
               (then_m (chr CHR '' '') (in_range CHR ''1'' CHR ''9'')))))"

definition re_H :: matcher where
  "re_H = or_m (then_m (chr CHR ''2'') (in_range CHR ''0'' CHR ''3''))
         (or_m (then_m (in_range CHR ''0'' CHR ''1'') digit) digit)"

definition re_M :: matcher where
  "re_M = or_m (then_m (in_range CHR ''0'' CHR ''5'') digit) digit"

definition re_S :: matcher where
  "re_S = or_m (then_m (chr CHR ''6'') (in_range CHR ''0'' CHR ''1''))
         (or_m (then_m (in_range CHR ''0'' CHR ''5'') digit) digit)"

definition re_f :: matcher where
  "re_f = then_m digit (upto_m (Suc (Suc (Suc (Suc (Suc 0))))) digit)"

record datetime =
  year :: nat
  month :: nat
  day :: nat
  hour :: nat
  minute :: nat
  second :: nat
  microsecond :: nat

definition format_regex :: "string \<Rightarrow> ((string \<times> string \<times> string \<times> string \<times> string \<times> string \<times> string) \<times> string) list" where
  "format_regex s =
     [((Y, m, d, H, M, S, f), r13).
        (Y, r1) \<leftarrow> re_Y s, (w1, r2) \<leftarrow> plus_space r1, (i, r3) \<leftarrow> chr CHR ''I'' r2,
        (m, r4) \<leftarrow> re_m r3, (d, r5) \<leftarrow> re_d r4, (w2, r6) \<leftarrow> plus_space r5,
        (H, r7) \<leftarrow> re_H r6, (c1, r8) \<leftarrow> chr CHR '':'' r7,
        (M, r9) \<leftarrow> re_M r8, (c2, r10) \<leftarrow> chr CHR '':'' r9,
        (S, r11) \<leftarrow> re_S r10, (p, r12) \<leftarrow> chr CHR ''.'' r11,
        (f, r13) \<leftarrow> re_f r12]"

definition is_leap :: "nat \<Rightarrow> bool" where
  "is_leap y = (y mod 4 = 0 \<and> (y mod 100 \<noteq> 0 \<or> y mod 400 = 0))"

definition days_in_month :: "nat \<Rightarrow> nat \<Rightarrow> nat" where
  "days_in_month y m =
     (if m = 2 then (if is_leap y then 29 else 28)
      else if m \<in> {4, 6, 9, 11} then 30 else 31)"

definition strptime :: "string \<Rightarrow> error + datetime" where
  "strptime data_string =
     (case format_regex data_string of
        [] \<Rightarrow> Inl ValueError
      | ((Y, m, d, H, M, S, f), rest) # others \<Rightarrow>
          if rest \<noteq> [] then Inl ValueError
          else
            let y = py_int Y; mo = py_int m; da = py_int d; s = py_int S;
                fraction = py_int (f @ replicate (6 - length f) CHR ''0'')
            in if y < 1 \<or> da < 1 \<or> days_in_month y mo < da \<or> 59 < s then Inl ValueError
               else Inr \<lparr>year = y, month = mo, day = da, hour = py_int H, minute = py_int M,
                         second = s, microsecond = fraction\<rparr>)"

subsection \<open>datetime values\<close>

text \<open>
  Two \<^verbatim>\<open>datetime\<close> values compare by their fields, in order. \<open>total_seconds end start\<close>
  is \<^verbatim>\<open>(end - start).total_seconds()\<close>: the difference in microseconds, counted from the
  proleptic Gregorian ordinal of the day, divided by \<^verbatim>\<open>10 ** 6\<close>. The division of two
  Python integers returns the \<^verbatim>\<open>float\<close> nearest to the quotient, ties going to the even
  significand. \<open>nearest_float x\<close> is that number for a real \<open>x\<close> in the range of the normal
  numbers of the binary64 format: with \<open>2 ^ e \<le> \<bar>x\<bar> < 2 ^ (e + 1)\<close>, it is the multiple of
  \<open>2 ^ (e - 52)\<close> nearest to \<open>x\<close>. The quotient of \<open>total_seconds\<close> is in that range: it is
  0, or its absolute value lies between \<open>10 ^ -6\<close> and the number of seconds in 9999 years.
\<close>

definition round_half_even :: "real \<Rightarrow> int" where
  "round_half_even x =
     (let f = \<lfloor>x\<rfloor>; r = x - of_int f
      in if r < 1 / 2 then f else if 1 / 2 < r then f + 1 else if even f then f else f + 1)"

definition nearest_float :: "real \<Rightarrow> real" where
  "nearest_float x =
     (if x = 0 then 0
      else let e = \<lfloor>log 2 \<bar>x\<bar>\<rfloor> - 52
           in of_int (round_half_even (x / 2 powr of_int e)) * 2 powr of_int e)"



definition days_before_year :: "nat \<Rightarrow> nat" where
  "days_before_year y = (let y1 = y - 1 in y1 * 365 + y1 div 4 - y1 div 100 + y1 div 400)"

definition days_before_month :: "nat \<Rightarrow> nat \<Rightarrow> nat" where
  "days_before_month y m = sum_list (map (days_in_month y) [1..<m])"

definition toordinal :: "datetime \<Rightarrow> nat" where
  "toordinal dt = days_before_year (year dt) + days_before_month (year dt) (month dt) + day dt"

definition to_microseconds :: "datetime \<Rightarrow> int" where
  "to_microseconds dt =
     int ((((toordinal dt * 24 + hour dt) * 60 + minute dt) * 60 + second dt) * 1000000
          + microsecond dt)"

definition total_seconds :: "datetime \<Rightarrow> datetime \<Rightarrow> real" where
  "total_seconds end_time start_time =
     nearest_float (real_of_int (to_microseconds end_time - to_microseconds start_time) / 1000000)"

subsection \<open>Reading the provisioner logs\<close>

text \<open>
  The functions read the clock (for the year) and the logs of the provisioner pods. The
  record \<open>log_env\<close> holds the year and, for each kind of log, the text that the read
  number \<open>k\<close> returns: the logs may change from one read to the next. Every function takes
  the number of reads made so far and returns it updated. \<open>read_provisioner_logs\<close> is
  \<^verbatim>\<open>logs = get_pod_logs(pod_name[0], ...)\<close>, \<^verbatim>\<open>logs += get_pod_logs(pod_name[1], ...)\<close>,
  \<^verbatim>\<open>logs = logs.split("\n")\<close>, and \<open>stat_text\<close> is the text handed to \<^verbatim>\<open>strptime\<close>:
  \<^verbatim>\<open>f"{this_year} {mon_day}"\<close> with \<^verbatim>\<open>mon_day = " ".join(line.split(" ")[0:2])\<close>.
  The argument \<^verbatim>\<open>pvc_name\<close> of \<^verbatim>\<open>get_provision_time\<close> is a name or a list of objects.
\<close>

record log_env =
  now_year :: nat
  csi_provisioner_logs :: "string \<Rightarrow> nat \<Rightarrow> string \<times> string"
  csi_snapshotter_logs :: "string \<Rightarrow> nat \<Rightarrow> string list"
  snapshot_controller_logs :: "nat \<Rightarrow> string"

definition read_provisioner_logs :: "log_env \<Rightarrow> string \<Rightarrow> nat \<Rightarrow> string list \<times> nat" where
  "read_provisioner_logs env interface k =
     (let logs = fst (csi_provisioner_logs env interface k) @ snd (csi_provisioner_logs env interface k)
      in (split_on newline logs, Suc k))"

definition mon_day :: "string \<Rightarrow> string" where
  "mon_day line = join_with '' '' (take 2 (split_on CHR '' '' line))"

definition stat_text :: "string \<Rightarrow> string \<Rightarrow> string" where
  "stat_text this_year line = this_year @ '' '' @ mon_day line"

datatype subject = Name string | Objects "resource list"

fun collect_stats :: "string \<Rightarrow> string list list \<Rightarrow> error + string list" where
  "collect_stats this_year [] = Inr []"
| "collect_stats this_year ([] # rest) = Inl IndexError"
| "collect_stats this_year ((l # ls) # rest) =
     (case collect_stats this_year rest of
        Inl e \<Rightarrow> Inl e
      | Inr stats \<Rightarrow> Inr (stat_text this_year l # stats))"

definition get_provision_time ::
  "log_env \<Rightarrow> string \<Rightarrow> subject \<Rightarrow> string \<Rightarrow> nat \<Rightarrow> (error + datetime) \<times> nat" where
  "get_provision_time env interface pvc_names status k =
     (let operation = (if lower status = ''end'' then ''succeeded'' else ''started'');
          this_year = str_nat (now_year env);
          (logs, k1) = read_provisioner_logs env interface k;
          found = (\<lambda>n. filter (re_search (provision_pattern n operation)) logs)
      in (case pvc_names of
            Name n \<Rightarrow>
              (case found n of
                 [] \<Rightarrow> Inl IndexError
               | l # ls \<Rightarrow> strptime (stat_text this_year l))
          | Objects objs \<Rightarrow>
              (case collect_stats this_year (map (\<lambda>pv. found (name pv)) objs) of
                 Inl e \<Rightarrow> Inl e
               | Inr stats \<Rightarrow>
                   (let all_stats = sort stats in
                    if lower status = ''end''
                    then (if all_stats = [] then Inl IndexError else strptime (last all_stats))
                    else if lower status = ''start''
                    then (if all_stats = [] then Inl IndexError else strptime (hd all_stats))
                    else (if stats = [] then Inl UnboundLocalError else strptime (last stats)))),
          k1))"

definition get_start_creation_time ::
  "log_env \<Rightarrow> string \<Rightarrow> string \<Rightarrow> nat \<Rightarrow> (error + datetime) \<times> nat" where
  "get_start_creation_time env interface n k =
     (let this_year = str_nat (now_year env);
          (logs, k1) = read_provisioner_logs env interface k;
          start = filter (re_search (provision_pattern n ''started'')) logs
      in (case start of
            [] \<Rightarrow> Inl IndexError
          | l # ls \<Rightarrow> strptime (stat_text this_year l),
          k1))"

definition get_end_creation_time ::
  "log_env \<Rightarrow> string \<Rightarrow> string \<Rightarrow> nat \<Rightarrow> (error + datetime) \<times> nat" where
  "get_end_creation_time env interface n k =
     (let this_year = str_nat (now_year env);
          (logs, k1) = read_provisioner_logs env interface k;
          end_lines = filter (re_search (provision_pattern n ''succeeded'')) logs
      in (if end_lines = [] then Inl IndexError
          else strptime (stat_text this_year (last end_lines)),
          k1))"

text \<open>\<^verbatim>\<open>get_start_deletion_time\<close> and \<^verbatim>\<open>get_end_deletion_time\<close>; both read the first matching line.\<close>

definition get_start_deletion_time ::
  "log_env \<Rightarrow> string \<Rightarrow> string \<Rightarrow> nat \<Rightarrow> (error + datetime) \<times> nat" where
  "get_start_deletion_time env interface pv_name k =
     (let this_year = str_nat (now_year env);
          (logs, k1) = read_provisioner_logs env interface k;
          start = filter (re_search (delete_pattern pv_name ''started'')) logs
      in (case start of
            [] \<Rightarrow> Inl IndexError
          | l # ls \<Rightarrow> strptime (stat_text this_year l),
          k1))"

definition get_end_deletion_time ::
  "log_env \<Rightarrow> string \<Rightarrow> string \<Rightarrow> nat \<Rightarrow> (error + datetime) \<times> nat" where
  "get_end_deletion_time env interface pv_name k =
     (let this_year = str_nat (now_year env);
          (logs, k1) = read_provisioner_logs env interface k;
          end_lines = filter (re_search (delete_pattern pv_name ''succeeded'')) logs
      in (case end_lines of
            [] \<Rightarrow> Inl IndexError
          | l # ls \<Rightarrow> strptime (stat_text this_year l),
          k1))"

definition measure_pvc_creation_time ::
  "log_env \<Rightarrow> string \<Rightarrow> string \<Rightarrow> nat \<Rightarrow> (error + real) \<times> nat" where
  "measure_pvc_creation_time env interface n k =
     (case get_start_creation_time env interface n k of
        (Inl e, k1) \<Rightarrow> (Inl e, k1)
      | (Inr start, k1) \<Rightarrow>
          (case get_end_creation_time env interface n k1 of
             (Inl e, k2) \<Rightarrow> (Inl e, k2)
           | (Inr end_time, k2) \<Rightarrow> (Inr (total_seconds end_time start), k2)))"

subsection \<open>\<^verbatim>\<open>get_snapshot_time\<close>\<close>

fun get_pattern_time :: "string \<Rightarrow> string list \<Rightarrow> string \<Rightarrow> string \<Rightarrow> string option" where
  "get_pattern_time this_year [] snapname pattern = None"
| "get_pattern_time this_year (line # rest) snapname pattern =
     (if re_search (name_pattern snapname) line \<and> re_search (literal pattern) line
      then Some (stat_text this_year line)
      else get_pattern_time this_year rest snapname pattern)"

definition py_sorted :: "string option list \<Rightarrow> error + string option list" where
  "py_sorted xs =
     (if None \<in> set xs
      then (if length xs \<le> 1 then Inr xs else Inl TypeError)
      else Inr (map Some (sort (map the xs))))"

definition get_snapshot_time ::
  "log_env \<Rightarrow> string \<Rightarrow> subject \<Rightarrow> string \<Rightarrow> nat \<Rightarrow> (error + datetime option) \<times> nat" where
  "get_snapshot_time env interface snap_name status k =
     (if lower status \<noteq> ''start'' \<and> lower status \<noteq> ''end'' then (Inr None, k)
      else
        let this_year = str_nat (now_year env);
            pattern = (if lower status = ''start'' then ''Creating content for snapshot''
                       else ''readyToUse true'');
            text = (if lower status = ''start'' then snapshot_controller_logs env k
                    else concat (csi_snapshotter_logs env interface k));
            logs = split_on newline text;
            stat = (case snap_name of
                      Name n \<Rightarrow> Inr (get_pattern_time this_year logs n pattern)
                    | Objects objs \<Rightarrow>
                        (case py_sorted (map (\<lambda>snap. get_pattern_time this_year logs (name snap) pattern) objs) of
                           Inl e \<Rightarrow> Inl e
                         | Inr all_stats \<Rightarrow>
                             if all_stats = [] then Inl IndexError
                             else if lower status = ''end'' then Inr (last all_stats)
                             else Inr (hd all_stats)))
        in (case stat of
              Inl e \<Rightarrow> Inl e
            | Inr None \<Rightarrow> Inr None
            | Inr (Some t) \<Rightarrow> (if t = [] then Inr None else map_sum id Some (strptime t)),
            Suc k))"

subsection \<open>Bulk measurements\<close>

text \<open>
  \<^verbatim>\<open>measure_pvc_creation_time_bulk\<close> and \<^verbatim>\<open>measure_pv_deletion_time_bulk\<close> differ in
  their patterns only; \<open>measure_bulk\<close> is their common body. \<open>no_data\<close> is the list
  \<^verbatim>\<open>no_data_list\<close> that one pass of the \<^verbatim>\<open>while True\<close> loop builds, and
  \<open>wait_for_csi_data\<close> is the loop: with a non-empty list it reads the logs again and adds
  one to \<^verbatim>\<open>loop_counter\<close>, and it raises when the counter has reached 6, naming the list
  built before that last read. \<open>bulk_times\<close> is the loop that fills the dictionary.
\<close>

definition no_data ::
  "(string \<Rightarrow> string \<Rightarrow> re_item list) \<Rightarrow> string list \<Rightarrow> string list \<Rightarrow> string list" where
  "no_data pat logs names =
     filter (\<lambda>n. filter (re_search (pat n ''started'')) logs = []
                \<or> filter (re_search (pat n ''succeeded'')) logs = []) names"

function wait_for_csi_data ::
  "(string \<Rightarrow> string \<Rightarrow> re_item list) \<Rightarrow> log_env \<Rightarrow> string \<Rightarrow> string list \<Rightarrow> string list
     \<Rightarrow> nat \<Rightarrow> nat \<Rightarrow> (error + string list) \<times> nat" where
  "wait_for_csi_data pat env interface names logs loop_counter k =
     (let no_data_list = no_data pat logs names in
      if no_data_list \<noteq> [] then
        (let (logs1, k1) = read_provisioner_logs env interface k;
             loop_counter1 = loop_counter + 1
         in if loop_counter1 \<ge> 6 then (Inl (UnexpectedBehaviour no_data_list), k1)
            else wait_for_csi_data pat env interface names logs1 loop_counter1 k1)
      else (Inr logs, k))"
  by pat_completeness auto
termination
  by (relation "measure (\<lambda>(pat, env, interface, names, logs, loop_counter, k). 6 - loop_counter)")
     (auto simp: read_provisioner_logs_def Let_def)

declare wait_for_csi_data.simps [simp del]

fun bulk_times ::
  "(string \<Rightarrow> string \<Rightarrow> re_item list) \<Rightarrow> string \<Rightarrow> string list \<Rightarrow> string list
     \<Rightarrow> (string \<rightharpoonup> real) \<Rightarrow> error + (string \<rightharpoonup> real)" where
  "bulk_times pat this_year logs [] d = Inr d"
| "bulk_times pat this_year logs (n # names) d =
     (case filter (re_search (pat n ''started'')) logs of
        [] \<Rightarrow> Inl IndexError
      | s # ss \<Rightarrow>
          (case strptime (stat_text this_year s) of
             Inl e \<Rightarrow> Inl e
           | Inr start_time \<Rightarrow>
               (case filter (re_search (pat n ''succeeded'')) logs of
                  [] \<Rightarrow> Inl IndexError
                | e # es \<Rightarrow>
                    (case strptime (stat_text this_year e) of
                       Inl err \<Rightarrow> Inl err
                     | Inr end_time \<Rightarrow>
                         bulk_times pat this_year logs names
                           (d(n \<mapsto> total_seconds end_time start_time))))))"

definition measure_bulk ::
  "(string \<Rightarrow> string \<Rightarrow> re_item list) \<Rightarrow> log_env \<Rightarrow> string \<Rightarrow> string list \<Rightarrow> nat
     \<Rightarrow> (error + (string \<rightharpoonup> real)) \<times> nat" where
  "measure_bulk pat env interface names k =
     (let (logs0, k0) = read_provisioner_logs env interface k in
      case wait_for_csi_data pat env interface names logs0 0 k0 of
        (Inl e, k1) \<Rightarrow> (Inl e, k1)
      | (Inr logs, k1) \<Rightarrow> (bulk_times pat (str_nat (now_year env)) logs names Map.empty, k1))"

definition measure_pvc_creation_time_bulk ::
  "log_env \<Rightarrow> string \<Rightarrow> string list \<Rightarrow> nat \<Rightarrow> (error + (string \<rightharpoonup> real)) \<times> nat" where
  "measure_pvc_creation_time_bulk env interface pvc_name_list k =
     measure_bulk provision_pattern env interface pvc_name_list k"

definition measure_pv_deletion_time_bulk ::
  "log_env \<Rightarrow> string \<Rightarrow> string list \<Rightarrow> nat \<Rightarrow> (error + (string \<rightharpoonup> real)) \<times> nat" where
  "measure_pv_deletion_time_bulk env interface pv_name_list k =
     measure_bulk delete_pattern env interface pv_name_list k"

text \<open>Concrete collaborators and resources used to evaluate the functions.\<close>

definition ocs_constants :: constants where
  "ocs_constants =
     \<lparr>DEFAULT_STORAGECLASS_CEPHFS = ''ocs-storagecluster-cephfs'',
      DEFAULT_STORAGECLASS_RBD = ''ocs-storagecluster-ceph-rbd'',
      CSI_RBD_RAW_BLOCK_POD_YAML = ''CSI/rbd/raw_block_pod.yaml''\<rparr>"

definition pvc_a :: resource where
  "pvc_a = \<lparr>name = ''pvc-a'', kind = ''PersistentVolumeClaim''\<rparr>"

definition pvc_b :: resource where
  "pvc_b = \<lparr>name = ''pvc-b'', kind = ''PersistentVolumeClaim''\<rparr>"

definition pod_a :: resource where
  "pod_a = \<lparr>name = ''pod-a'', kind = ''Pod''\<rparr>"

definition pod_b :: resource where
  "pod_b = \<lparr>name = ''pod-b'', kind = ''Pod''\<rparr>"

definition default_rbd_sc :: resource where
  "default_rbd_sc = \<lparr>name = ''ocs-storagecluster-ceph-rbd'', kind = ''StorageClass''\<rparr>"

text \<open>
  A backend on which creation succeeds (one PVC per access mode, \<^verbatim>\<open>pvc-a\<close> for
  \<^verbatim>\<open>ReadWriteOnce\<close> and \<^verbatim>\<open>pvc-b\<close> otherwise; the pod \<^verbatim>\<open>pod-a\<close> for \<^verbatim>\<open>pvc-a\<close> and
  \<^verbatim>\<open>pod-b\<close> otherwise), the wait for any resource whose name ends in \<^verbatim>\<open>b\<close> times out,
  and every other call succeeds.
\<close>

definition timing_out_backend :: backend where
  "timing_out_backend =
     \<lparr>wait_for_resource = (\<lambda>condition resource_name timeout.
         if resource_name \<noteq> [] \<and> last resource_name = CHR ''b''
         then Some TimeoutExpiredError else None),
      reload = (\<lambda>resource_name. None),
      describe = (\<lambda>resource_name. Inr (''Name: '' @ resource_name)),
      delete = (\<lambda>resource_name. None),
      create_multiple_pvcs = (\<lambda>sc_name ns number_of_pvc access_mode sz.
         Inr [if access_mode = ''ReadWriteOnce'' then pvc_a else pvc_b]),
      create_pod = (\<lambda>request. Inr (Some (if pvc_name request = ''pvc-a'' then pod_a else pod_b)))\<rparr>"

text \<open>The same backend, except that reloading and deleting a resource fail.\<close>

definition vanished_backend :: backend where
  "vanished_backend =
     timing_out_backend
       \<lparr>reload := (\<lambda>resource_name. Some (CommandFailed ''NotFound'')),
        delete := (\<lambda>resource_name. Some (CommandFailed ''Forbidden''))\<rparr>"

text \<open>A log reader that returns the given lines, joined by newlines, at every read.\<close>

definition log_env_of :: "string list \<Rightarrow> log_env" where
  "log_env_of log_lines =
     \<lparr>now_year = 2026,
      csi_provisioner_logs = (\<lambda>interface k. (join_with [newline] log_lines, [])),
      csi_snapshotter_logs = (\<lambda>interface k. [join_with [newline] log_lines]),
      snapshot_controller_logs = (\<lambda>k. join_with [newline] log_lines)\<rparr>"

definition a_started :: string where
  "a_started = ''I0105 10:00:00.000000 provision pvc-a started''"

definition a_started_unpadded :: string where
  "a_started_unpadded = ''I0105 9:59:59.000000 provision pvc-a started''"

definition a_succeeded :: string where
  "a_succeeded = ''I0105 10:00:02.000000 provision pvc-a succeeded''"

definition a_succeeded_late :: string where
  "a_succeeded_late = ''I0105 10:00:05.000000 provision pvc-a succeeded''"

definition b_started :: string where
  "b_started = ''I0105 10:00:01.000000 provision pvc-b started''"

definition b_succeeded :: string where
  "b_succeeded = ''I0105 10:00:05.000000 provision pvc-b succeeded''"

definition pv_delete_started :: string where
  "pv_delete_started = ''I0105 10:00:00.000000 delete \"pv-a\": started''"

definition pv_delete_succeeded :: string where
  "pv_delete_succeeded = ''I0105 10:00:03.000000 delete \"pv-a\": succeeded''"

definition syslog_started :: string where
  "syslog_started = ''Jan  5 10:00:00.000000 provision pvc-a started''"

definition syslog_succeeded :: string where
  "syslog_succeeded = ''Jan  5 10:00:05.000000 provision pvc-a succeeded''"

section \<open>Properties\<close>

subsection \<open>Unique resource names\<close>

lemma create_unique_resource_name_take:
  "create_unique_resource_name d t h = take 40 (t @ ''-'' @ take 23 d @ ''-'' @ h)"
  by (simp add: create_unique_resource_name_def Let_def)

text \<open>
  C10, as stated, fails: for a resource type of 40 characters the result is the type
  itself, cut to 40 characters, and does not begin with the type followed by a dash.
\<close>

theorem C10_long_type_counterexample:
  "\<not> prefix (''aaaaaaaaaaaaaaaaaaaaaaaaaaaaaaaaaaaaaaaa'' @ ''-'')
      (create_unique_resource_name ''test'' ''aaaaaaaaaaaaaaaaaaaaaaaaaaaaaaaaaaaaaaaa''
         ''0123456789abcdef0123456789abcdef'')"
  by (simp add: create_unique_resource_name_def)

text \<open>
  C10, amended: for every description, type and random part, the result has at most 40
  characters and is the first 40 characters of
  \<^verbatim>\<open>{resource_type}-{resource_description[:23]}-{hex}\<close>. It begins with
  \<^verbatim>\<open>{resource_type}-\<close> when the resource type has at most 39 characters, and it is the
  first 40 characters of the resource type alone when the type has 40 characters or more.
\<close>

theorem C10_unique_name_shape:
  "length (create_unique_resource_name resource_description resource_type hex) \<le> 40
   \<and> create_unique_resource_name resource_description resource_type hex
       = take 40 (resource_type @ ''-'' @ take 23 resource_description @ ''-'' @ hex)
   \<and> (length resource_type \<le> 39
        \<longrightarrow> prefix (resource_type @ ''-'')
              (create_unique_resource_name resource_description resource_type hex))
   \<and> (40 \<le> length resource_type
        \<longrightarrow> create_unique_resource_name resource_description resource_type hex
              = take 40 resource_type)"
proof -
  let ?rest = "take 23 resource_description @ ''-'' @ hex"
  let ?head = "resource_type @ ''-''"
  have eq: "create_unique_resource_name resource_description resource_type hex
              = take 40 (?head @ ?rest)"
    by (simp add: create_unique_resource_name_take)
  have bound: "length (create_unique_resource_name resource_description resource_type hex) \<le> 40"
    unfolding eq by simp
  have split: "take 40 (a @ r) = a @ take (40 - length a) r"
    if "length a \<le> 40" for a r :: string
    using that by simp
  have short: "prefix ?head (create_unique_resource_name resource_description resource_type hex)"
    if "length resource_type \<le> 39"
  proof -
    have "length ?head \<le> 40"
      using that by simp
    then have "take 40 (?head @ ?rest) = ?head @ take (40 - length ?head) ?rest"
      by (rule split)
    then show ?thesis
      unfolding eq by (metis prefixI)
  qed
  have long: "create_unique_resource_name resource_description resource_type hex
                = take 40 resource_type"
    if "40 \<le> length resource_type"
    using that by (simp add: create_unique_resource_name_take)
  from bound eq short long show ?thesis
    by simp
qed

theorem C10_unique_name_shape_witness:
  "length ''pvc'' \<le> 39
   \<and> length (create_unique_resource_name ''test'' ''pvc'' ''0123456789abcdef0123456789abcdef'') \<le> 40
   \<and> create_unique_resource_name ''test'' ''pvc'' ''0123456789abcdef0123456789abcdef''
       = ''pvc-test-0123456789abcdef0123456789abcde''
   \<and> prefix ''pvc-'' (create_unique_resource_name ''test'' ''pvc'' ''0123456789abcdef0123456789abcdef'')
   \<and> 40 \<le> length ''aaaaaaaaaaaaaaaaaaaaaaaaaaaaaaaaaaaaaaaaaaaaaaaaaa''
   \<and> create_unique_resource_name ''test'' ''aaaaaaaaaaaaaaaaaaaaaaaaaaaaaaaaaaaaaaaaaaaaaaaaaa''
         ''0123456789abcdef0123456789abcdef''
       = ''aaaaaaaaaaaaaaaaaaaaaaaaaaaaaaaaaaaaaaaa''"
  using C10_unique_name_shape [of "''test''" "''pvc''" "''0123456789abcdef0123456789abcdef''"]
    C10_unique_name_shape [of "''test''" "''aaaaaaaaaaaaaaaaaaaaaaaaaaaaaaaaaaaaaaaaaaaaaaaaaa''"
      "''0123456789abcdef0123456789abcdef''"]
  by simp

subsection \<open>Waiting for a resource state\<close>

text \<open>
  C4: for a resource named as the default CephFS or the default RBD storage class,
  \<^verbatim>\<open>wait_for_resource_state\<close> returns at once, for every target state and timeout, and
  makes no call to a collaborator: the trace of calls is unchanged.
\<close>

theorem C4_default_storageclass_short_circuit:
  assumes "name r = DEFAULT_STORAGECLASS_CEPHFS c \<or> name r = DEFAULT_STORAGECLASS_RBD c"
  shows "wait_for_resource_state c b r state timeout tr = (Inr (), tr)"
  using assms by (simp add: wait_for_resource_state_def)

theorem C4_default_storageclass_short_circuit_witness:
  "(name default_rbd_sc = DEFAULT_STORAGECLASS_CEPHFS ocs_constants
      \<or> name default_rbd_sc = DEFAULT_STORAGECLASS_RBD ocs_constants)
   \<and> wait_for_resource_state ocs_constants timing_out_backend default_rbd_sc ''Bound'' 60 []
       = (Inr (), [])"
proof -
  have h: "name default_rbd_sc = DEFAULT_STORAGECLASS_CEPHFS ocs_constants
             \<or> name default_rbd_sc = DEFAULT_STORAGECLASS_RBD ocs_constants"
    by (simp add: default_rbd_sc_def ocs_constants_def)
  show ?thesis
    using h C4_default_storageclass_short_circuit [OF h, of timing_out_backend "''Bound''" 60 "[]"]
    by simp
qed

lemma wait_for_resource_state_timeout:
  assumes "name r \<noteq> DEFAULT_STORAGECLASS_CEPHFS c"
      and "name r \<noteq> DEFAULT_STORAGECLASS_RBD c"
      and "wait_for_resource b state (name r) timeout = Some TimeoutExpiredError"
  shows "wait_for_resource_state c b r state timeout tr
           = (case reload b (name r) of
                Some e \<Rightarrow>
                  (Inl e, tr @ [WaitForResource state (name r) timeout, Reload (name r)])
              | None \<Rightarrow>
                  (case describe b (name r) of
                     Inl e \<Rightarrow>
                       (Inl e, tr @ [WaitForResource state (name r) timeout, Reload (name r),
                                     Describe (name r)])
                   | Inr d \<Rightarrow>
                       (Inl (ResourceWrongStatusException (name r) d),
                        tr @ [WaitForResource state (name r) timeout, Reload (name r),
                              Describe (name r)])))"
  using assms by (simp add: wait_for_resource_state_def split: option.splits sum.splits)

text \<open>
  C3: the wait for \<^verbatim>\<open>pvc-b\<close> times out. When the reload and the description that follow
  succeed, \<^verbatim>\<open>wait_for_resource_state\<close> reloads the resource once, describes it once and
  raises the wrong-state error with that description. When the reload itself raises
  (the resource has vanished), the exception of the reload reaches the caller: the
  resource is never described and no wrong-state error is raised, although the state was
  not reached.
\<close>

theorem C3_reload_failure_masks_wrong_status:
  "wait_for_resource_state ocs_constants timing_out_backend pvc_b ''Bound'' 60 []
     = (Inl (ResourceWrongStatusException ''pvc-b'' ''Name: pvc-b''),
        [WaitForResource ''Bound'' ''pvc-b'' 60, Reload ''pvc-b'', Describe ''pvc-b''])
   \<and> wait_for_resource_state ocs_constants vanished_backend pvc_b ''Bound'' 60 []
     = (Inl (CommandFailed ''NotFound''),
        [WaitForResource ''Bound'' ''pvc-b'' 60, Reload ''pvc-b''])"
  by (simp add: wait_for_resource_state_def ocs_constants_def vanished_backend_def
      timing_out_backend_def pvc_b_def)

subsection \<open>Batch creation and deletion\<close>

text \<open>
  C2: two PVCs are created, one per access mode, and both creations succeed; the wait for
  \<^verbatim>\<open>pvc-b\<close> times out. \<^verbatim>\<open>create_multiple_pvc_parallel\<close> then raises the wrong-state error
  that the waiting worker raised, not \<^verbatim>\<open>TimeoutExpiredError\<close>: the test
  \<^verbatim>\<open>False in [...]\<close> is never reached with a \<^verbatim>\<open>False\<close> in the list. The trace shows one
  wait per PVC and no deletion. \<^verbatim>\<open>create_pods_parallel\<close> does the same for two pods.
\<close>

theorem C2_failed_wait_raises_wrong_status:
  "create_multiple_pvc_parallel ocs_constants timing_out_backend default_rbd_sc ''ns'' 1 ''10Gi''
       [''ReadWriteOnce'', ''ReadWriteMany''] []
     = (Inl (ResourceWrongStatusException ''pvc-b'' ''Name: pvc-b''),
        [CreateMultiplePvcs ''ocs-storagecluster-ceph-rbd'' ''ReadWriteOnce'',
         CreateMultiplePvcs ''ocs-storagecluster-ceph-rbd'' ''ReadWriteMany'',
         WaitForResource ''Bound'' ''pvc-a'' 90, WaitForResource ''Bound'' ''pvc-b'' 90,
         Reload ''pvc-b'', Describe ''pvc-b''])
   \<and> create_pods_parallel ocs_constants timing_out_backend [pvc_a, pvc_b] ''ns'' ''CephBlockPool''
         None None False False None []
     = (Inl (ResourceWrongStatusException ''pod-b'' ''Name: pod-b''),
        [CreatePod ''pvc-a'', CreatePod ''pvc-b'',
         WaitForResource ''Running'' ''pod-a'' 300, WaitForResource ''Running'' ''pod-b'' 300,
         Reload ''pod-b'', Describe ''pod-b''])"
  by (simp add: create_multiple_pvc_parallel_def create_pods_parallel_def timing_out_backend_def
      ocs_constants_def default_rbd_sc_def pvc_a_def pvc_b_def pod_a_def pod_b_def
      wait_for_resource_state_def converge_lists_def py_in_def)

text \<open>
  C9: both deletions fail. \<^verbatim>\<open>delete_objs_parallel\<close> has started and joined one thread per
  object and made no other call, the two exceptions went to the thread hook, and the
  function returns \<^verbatim>\<open>True\<close>.
\<close>

theorem C9_failed_delete_returns_True:
  "delete_objs_parallel vanished_backend [pvc_a, pvc_b] ([], [])
     = (Inr True, [Delete ''pvc-a'', Delete ''pvc-b''],
        [CommandFailed ''Forbidden'', CommandFailed ''Forbidden''])"
  by (simp add: delete_objs_parallel_def run_delete_thread_def vanished_backend_def
      timing_out_backend_def pvc_a_def pvc_b_def)

subsection \<open>Timestamps from the provisioner logs\<close>

lemma split_on_no_sep: "sep \<notin> set l \<Longrightarrow> split_on sep l = [l]"
  by (induction l) auto

lemma split_on_append_sep: "sep \<notin> set l \<Longrightarrow> split_on sep (l @ sep # r) = l # split_on sep r"
  by (induction l) auto

lemma split_on_join:
  "log_lines \<noteq> [] \<Longrightarrow> \<forall>l \<in> set log_lines. sep \<notin> set l
     \<Longrightarrow> split_on sep (join_with [sep] log_lines) = log_lines"
proof (induction "[sep]" log_lines rule: join_with.induct)
  case 1
  then show ?case by simp
next
  case (2 w)
  then show ?case by (simp add: split_on_no_sep)
next
  case (3 w v ws)
  then show ?case by (simp add: split_on_append_sep)
qed

lemma read_log_env_of:
  "log_lines \<noteq> [] \<Longrightarrow> \<forall>l \<in> set log_lines. newline \<notin> set l
     \<Longrightarrow> read_provisioner_logs (log_env_of log_lines) interface k = (log_lines, Suc k)"
  by (simp add: read_provisioner_logs_def log_env_of_def split_on_join)

lemma no_newline:
  "newline \<notin> set a_started" "newline \<notin> set a_succeeded" "newline \<notin> set a_succeeded_late"
  "newline \<notin> set b_started" "newline \<notin> set b_succeeded"
  by (simp_all add: newline_def a_started_def a_succeeded_def a_succeeded_late_def b_started_def b_succeeded_def)

lemma matches_a:
  "re_search (provision_pattern ''pvc-a'' ''started'') a_started"
  "\<not> re_search (provision_pattern ''pvc-a'' ''started'') a_succeeded"
  "\<not> re_search (provision_pattern ''pvc-a'' ''succeeded'') a_started"
  "re_search (provision_pattern ''pvc-a'' ''succeeded'') a_succeeded"
  "re_search (provision_pattern ''pvc-a'' ''succeeded'') a_succeeded_late"
  unfolding a_started_def a_succeeded_def a_succeeded_late_def by code_simp+

lemma replicate_numeral: "replicate (numeral k) x = x # replicate (pred_numeral k) x"
  by (simp add: numeral_eq_Suc)

lemmas matcher_defs = re_Y_def re_m_def re_d_def re_H_def re_M_def re_S_def re_f_def
  plus_space_def or_m_def then_m_def chr_def digit_def in_range_def one_of_def lower_char_def is_space_def

lemmas strptime_defs = strptime_def format_regex_def matcher_defs py_int_def digit_val_def
  days_in_month_def is_leap_def replicate_numeral

lemma str_nat_2026: "str_nat 2026 = ''2026''"
  by code_simp

lemma stat_text_a:
  "stat_text ''2026'' a_started = ''2026 I0105 10:00:00.000000''"
  "stat_text ''2026'' a_succeeded = ''2026 I0105 10:00:02.000000''"
  "stat_text ''2026'' a_succeeded_late = ''2026 I0105 10:00:05.000000''"
  unfolding a_started_def a_succeeded_def a_succeeded_late_def by code_simp+

lemma strptime_10_00_00:
  "strptime ''2026 I0105 10:00:00.000000''
     = Inr \<lparr>year = 2026, month = 1, day = 5, hour = 10, minute = 0, second = 0, microsecond = 0\<rparr>"
  by (simp add: strptime_defs)

lemma strptime_10_00_02:
  "strptime ''2026 I0105 10:00:02.000000''
     = Inr \<lparr>year = 2026, month = 1, day = 5, hour = 10, minute = 0, second = 2, microsecond = 0\<rparr>"
  by (simp add: strptime_defs)

lemma strptime_10_00_05:
  "strptime ''2026 I0105 10:00:05.000000''
     = Inr \<lparr>year = 2026, month = 1, day = 5, hour = 10, minute = 0, second = 5, microsecond = 0\<rparr>"
  by (simp add: strptime_defs)

text \<open>
  C6: the log holds two \<^verbatim>\<open>succeeded\<close> lines for \<^verbatim>\<open>pvc-a\<close>, at 10:00:02 and at 10:00:05.
  \<^verbatim>\<open>get_provision_time\<close> with status \<^verbatim>\<open>end\<close> reads \<^verbatim>\<open>stat[0]\<close>, the first of them;
  \<^verbatim>\<open>get_end_creation_time\<close> reads \<^verbatim>\<open>end[-1]\<close>, the last one. The two results differ.
\<close>

theorem C6_first_and_last_succeeded_differ:
  "get_provision_time (log_env_of [a_started, a_succeeded, a_succeeded_late]) ''CephBlockPool''
       (Name ''pvc-a'') ''end'' 0
     = (Inr \<lparr>year = 2026, month = 1, day = 5, hour = 10, minute = 0, second = 2, microsecond = 0\<rparr>, 1)
   \<and> get_end_creation_time (log_env_of [a_started, a_succeeded, a_succeeded_late]) ''CephBlockPool''
       ''pvc-a'' 0
     = (Inr \<lparr>year = 2026, month = 1, day = 5, hour = 10, minute = 0, second = 5, microsecond = 0\<rparr>, 1)"
proof -
  have year: "now_year (log_env_of [a_started, a_succeeded, a_succeeded_late]) = 2026"
    by (simp add: log_env_of_def)
  have low: "lower ''end'' = ''end''"
    by code_simp
  show ?thesis
    by (simp add: get_provision_time_def get_end_creation_time_def read_log_env_of no_newline
        matches_a year low str_nat_2026 stat_text_a strptime_10_00_02 strptime_10_00_05)
qed

lemma collect_stats_missing:
  "[] \<in> set found \<Longrightarrow> collect_stats this_year found = Inl IndexError"
  by (induction this_year found rule: collect_stats.induct) (auto split: sum.splits)

lemma get_pattern_time_missing:
  "filter (\<lambda>l. re_search (name_pattern n) l \<and> re_search (literal pattern) l) logs = []
     \<Longrightarrow> get_pattern_time this_year logs n pattern = None"
  by (induction logs) (auto split: if_splits)

text \<open>
  C7, as stated, fails for the snapshot variant: no line of the log names the snapshot,
  and \<^verbatim>\<open>get_snapshot_time\<close> returns \<^verbatim>\<open>None\<close> instead of raising.
\<close>

theorem C7_snapshot_time_counterexample:
  "get_snapshot_time (log_env_of [a_started]) ''CephBlockPool'' (Name ''snap-a'') ''start'' 0
     = (Inr None, 1)"
proof -
  have low: "lower ''start'' = ''start''"
    by code_simp
  have split: "split_on newline a_started = [a_started]"
    by (simp add: split_on_no_sep no_newline)
  have miss: "\<not> re_search (name_pattern ''snap-a'') a_started"
    unfolding a_started_def by code_simp
  show ?thesis
    by (simp add: get_snapshot_time_def low log_env_of_def split miss)
qed

text \<open>
  C7, amended. The subject \<open>n\<close> is a name without special characters of regular
  expressions. When no line of the provisioner log matches the subject and the requested
  marker, \<^verbatim>\<open>get_start_creation_time\<close>, \<^verbatim>\<open>get_end_creation_time\<close>,
  \<^verbatim>\<open>get_start_deletion_time\<close>, \<^verbatim>\<open>get_end_deletion_time\<close> and \<^verbatim>\<open>get_provision_time\<close>
  (for the name, and for every list of objects with such names that holds an object of
  that name) raise \<^verbatim>\<open>IndexError\<close>. The snapshot variant does not: when no line of the log
  it reads matches both the name and its marker, \<^verbatim>\<open>get_snapshot_time\<close> returns \<^verbatim>\<open>None\<close>
  for the name, for the status \<^verbatim>\<open>start\<close> and for the status \<^verbatim>\<open>end\<close>.
\<close>

theorem C7_missing_line_raises_IndexError:
  "regex_free n \<Longrightarrow>
   (filter (re_search (provision_pattern n ''started'')) (fst (read_provisioner_logs env interface k)) = []
      \<longrightarrow> fst (get_start_creation_time env interface n k) = Inl IndexError)
   \<and> (filter (re_search (provision_pattern n ''succeeded'')) (fst (read_provisioner_logs env interface k)) = []
      \<longrightarrow> fst (get_end_creation_time env interface n k) = Inl IndexError)
   \<and> (filter (re_search (delete_pattern n ''started'')) (fst (read_provisioner_logs env interface k)) = []
      \<longrightarrow> fst (get_start_deletion_time env interface n k) = Inl IndexError)
   \<and> (filter (re_search (delete_pattern n ''succeeded'')) (fst (read_provisioner_logs env interface k)) = []
      \<longrightarrow> fst (get_end_deletion_time env interface n k) = Inl IndexError)
   \<and> (filter (re_search (provision_pattern n (if lower status = ''end'' then ''succeeded'' else ''started'')))
         (fst (read_provisioner_logs env interface k)) = []
      \<longrightarrow> fst (get_provision_time env interface (Name n) status k) = Inl IndexError
        \<and> (\<forall>objs :: resource list. n \<in> name ` set objs \<and> list_all (\<lambda>obj. regex_free (name obj)) objs
              \<longrightarrow> fst (get_provision_time env interface (Objects objs) status k) = Inl IndexError))
   \<and> (lower status = ''start''
        \<and> filter (\<lambda>l. re_search (name_pattern n) l
                       \<and> re_search (literal ''Creating content for snapshot'') l)
            (split_on newline (snapshot_controller_logs env k)) = []
      \<longrightarrow> get_snapshot_time env interface (Name n) status k = (Inr None, Suc k))
   \<and> (lower status = ''end''
        \<and> filter (\<lambda>l. re_search (name_pattern n) l \<and> re_search (literal ''readyToUse true'') l)
            (split_on newline (concat (csi_snapshotter_logs env interface k))) = []
      \<longrightarrow> get_snapshot_time env interface (Name n) status k = (Inr None, Suc k))"
proof (intro conjI impI allI)
  assume "filter (re_search (provision_pattern n ''started'')) (fst (read_provisioner_logs env interface k)) = []"
  then show "fst (get_start_creation_time env interface n k) = Inl IndexError"
    by (simp add: get_start_creation_time_def Let_def split_beta)
next
  assume "filter (re_search (provision_pattern n ''succeeded'')) (fst (read_provisioner_logs env interface k)) = []"
  then show "fst (get_end_creation_time env interface n k) = Inl IndexError"
    by (simp add: get_end_creation_time_def Let_def split_beta)
next
  assume "filter (re_search (delete_pattern n ''started'')) (fst (read_provisioner_logs env interface k)) = []"
  then show "fst (get_start_deletion_time env interface n k) = Inl IndexError"
    by (simp add: get_start_deletion_time_def Let_def split_beta)
next
  assume "filter (re_search (delete_pattern n ''succeeded'')) (fst (read_provisioner_logs env interface k)) = []"
  then show "fst (get_end_deletion_time env interface n k) = Inl IndexError"
    by (simp add: get_end_deletion_time_def Let_def split_beta)
next
  assume "filter (re_search (provision_pattern n (if lower status = ''end'' then ''succeeded'' else ''started'')))
         (fst (read_provisioner_logs env interface k)) = []"
  then show "fst (get_provision_time env interface (Name n) status k) = Inl IndexError"
    by (simp add: get_provision_time_def Let_def split_beta)
next
  fix objs :: "resource list"
  assume none: "filter (re_search (provision_pattern n (if lower status = ''end'' then ''succeeded'' else ''started'')))
         (fst (read_provisioner_logs env interface k)) = []"
    and mem: "n \<in> name ` set objs \<and> list_all (\<lambda>obj. regex_free (name obj)) objs"
  let ?op = "if lower status = ''end'' then ''succeeded'' else ''started''"
  let ?logs = "fst (read_provisioner_logs env interface k)"
  have "[] \<in> set (map (\<lambda>pv. filter (re_search (provision_pattern (name pv) ?op)) ?logs) objs)"
    using none mem by force
  then have "collect_stats (str_nat (now_year env))
               (map (\<lambda>pv. filter (re_search (provision_pattern (name pv) ?op)) ?logs) objs) = Inl IndexError"
    by (rule collect_stats_missing)
  then show "fst (get_provision_time env interface (Objects objs) status k) = Inl IndexError"
    by (simp add: get_provision_time_def Let_def split_beta)
next
  assume "lower status = ''start''
        \<and> filter (\<lambda>l. re_search (name_pattern n) l
                       \<and> re_search (literal ''Creating content for snapshot'') l)
            (split_on newline (snapshot_controller_logs env k)) = []"
  then show "get_snapshot_time env interface (Name n) status k = (Inr None, Suc k)"
    by (simp add: get_snapshot_time_def Let_def get_pattern_time_missing)
next
  assume "lower status = ''end''
        \<and> filter (\<lambda>l. re_search (name_pattern n) l \<and> re_search (literal ''readyToUse true'') l)
            (split_on newline (concat (csi_snapshotter_logs env interface k))) = []"
  then show "get_snapshot_time env interface (Name n) status k = (Inr None, Suc k)"
    by (simp add: get_snapshot_time_def Let_def get_pattern_time_missing)
qed

theorem C7_missing_line_raises_IndexError_witness:
  "regex_free ''pvc-b''
   \<and> ''pvc-b'' \<in> name ` set [pvc_b]
   \<and> list_all (\<lambda>obj. regex_free (name obj)) [pvc_b]
   \<and> filter (re_search (provision_pattern ''pvc-b'' ''started''))
       (fst (read_provisioner_logs (log_env_of [a_started]) ''CephBlockPool'' 0)) = []
   \<and> filter (re_search (provision_pattern ''pvc-b'' ''succeeded''))
       (fst (read_provisioner_logs (log_env_of [a_started]) ''CephBlockPool'' 0)) = []
   \<and> filter (re_search (delete_pattern ''pvc-b'' ''started''))
       (fst (read_provisioner_logs (log_env_of [a_started]) ''CephBlockPool'' 0)) = []
   \<and> filter (re_search (delete_pattern ''pvc-b'' ''succeeded''))
       (fst (read_provisioner_logs (log_env_of [a_started]) ''CephBlockPool'' 0)) = []
   \<and> fst (get_start_creation_time (log_env_of [a_started]) ''CephBlockPool'' ''pvc-b'' 0) = Inl IndexError
   \<and> fst (get_end_creation_time (log_env_of [a_started]) ''CephBlockPool'' ''pvc-b'' 0) = Inl IndexError
   \<and> fst (get_start_deletion_time (log_env_of [a_started]) ''CephBlockPool'' ''pvc-b'' 0) = Inl IndexError
   \<and> fst (get_end_deletion_time (log_env_of [a_started]) ''CephBlockPool'' ''pvc-b'' 0) = Inl IndexError
   \<and> fst (get_provision_time (log_env_of [a_started]) ''CephBlockPool'' (Name ''pvc-b'') ''start'' 0)
       = Inl IndexError
   \<and> fst (get_provision_time (log_env_of [a_started]) ''CephBlockPool'' (Objects [pvc_b]) ''start'' 0)
       = Inl IndexError
   \<and> get_snapshot_time (log_env_of [a_started]) ''CephBlockPool'' (Name ''pvc-b'') ''start'' 0
       = (Inr None, 1)
   \<and> get_snapshot_time (log_env_of [a_started]) ''CephBlockPool'' (Name ''pvc-b'') ''end'' 0
       = (Inr None, 1)"
proof -
  have free: "regex_free ''pvc-b''"
    by (simp add: regex_free_def re_special_def)
  have miss: "\<not> re_search (provision_pattern ''pvc-b'' ''started'') a_started"
    "\<not> re_search (provision_pattern ''pvc-b'' ''succeeded'') a_started"
    "\<not> re_search (delete_pattern ''pvc-b'' ''started'') a_started"
    "\<not> re_search (delete_pattern ''pvc-b'' ''succeeded'') a_started"
    "\<not> re_search (name_pattern ''pvc-b'') a_started"
    unfolding a_started_def by code_simp+
  have logs: "fst (read_provisioner_logs (log_env_of [a_started]) ''CephBlockPool'' 0) = [a_started]"
    by (simp add: read_log_env_of no_newline)
  have h: "filter (re_search (provision_pattern ''pvc-b'' ''started''))
       (fst (read_provisioner_logs (log_env_of [a_started]) ''CephBlockPool'' 0)) = []"
    "filter (re_search (provision_pattern ''pvc-b'' ''succeeded''))
       (fst (read_provisioner_logs (log_env_of [a_started]) ''CephBlockPool'' 0)) = []"
    "filter (re_search (delete_pattern ''pvc-b'' ''started''))
       (fst (read_provisioner_logs (log_env_of [a_started]) ''CephBlockPool'' 0)) = []"
    "filter (re_search (delete_pattern ''pvc-b'' ''succeeded''))
       (fst (read_provisioner_logs (log_env_of [a_started]) ''CephBlockPool'' 0)) = []"
    by (simp_all add: logs miss)
  have split: "split_on newline a_started = [a_started]"
    by (simp add: split_on_no_sep no_newline)
  have snap: "filter (\<lambda>l. re_search (name_pattern ''pvc-b'') l
                       \<and> re_search (literal ''Creating content for snapshot'') l)
            (split_on newline (snapshot_controller_logs (log_env_of [a_started]) 0)) = []"
    "filter (\<lambda>l. re_search (name_pattern ''pvc-b'') l \<and> re_search (literal ''readyToUse true'') l)
            (split_on newline (concat (csi_snapshotter_logs (log_env_of [a_started]) ''CephBlockPool'' 0))) = []"
    by (simp_all add: log_env_of_def split miss)
  have low: "lower ''start'' = ''start''" "lower ''end'' = ''end''" "lower ''start'' \<noteq> ''end''"
    by code_simp+
  have mem: "''pvc-b'' \<in> name ` set [pvc_b]"
    by (simp add: pvc_b_def)
  have all_free: "list_all (\<lambda>obj. regex_free (name obj)) [pvc_b]"
    by (simp add: pvc_b_def regex_free_def re_special_def)
  show ?thesis
    using free h snap mem all_free low
      C7_missing_line_raises_IndexError
        [OF free, of "log_env_of [a_started]" "''CephBlockPool''" 0 "''start''"]
      C7_missing_line_raises_IndexError
        [OF free, of "log_env_of [a_started]" "''CephBlockPool''" 0 "''end''"]
    by simp
qed

text \<open>A number \<open>m * 2 ^ e\<close> with \<open>\<bar>m\<bar> < 2 ^ 53\<close> is a float, and \<open>nearest_float\<close> returns it.\<close>

lemma round_half_even_of_int: "round_half_even (of_int z) = z"
  by (simp add: round_half_even_def)

lemma nearest_float_exact:
  assumes "\<bar>m\<bar> < 2 ^ 53"
  shows "nearest_float (of_int m * 2 powr of_int e) = of_int m * 2 powr of_int e"
proof (cases "m = 0")
  case True
  then show ?thesis by (simp add: nearest_float_def)
next
  case False
  let ?x = "of_int m * 2 powr of_int e :: real"
  let ?E = "\<lfloor>log 2 \<bar>?x\<bar>\<rfloor> - 52"
  have x0: "?x \<noteq> 0" using False by simp
  have m1: "1 \<le> \<bar>real_of_int m\<bar>" using False by linarith
  have absx: "\<bar>?x\<bar> = \<bar>real_of_int m\<bar> * 2 powr of_int e"
    by (simp add: abs_mult)
  have logx: "log 2 \<bar>?x\<bar> = log 2 \<bar>real_of_int m\<bar> + of_int e"
    unfolding absx using m1 False by (simp add: log_mult)
  have "\<bar>real_of_int m\<bar> < 2 powr 53"
    using assms by (simp flip: of_int_abs)
  then have "log 2 \<bar>real_of_int m\<bar> < 53"
    using m1 by (simp add: log_less_iff)
  then have "log 2 \<bar>?x\<bar> < 53 + of_int e"
    unfolding logx by simp
  then have "\<lfloor>log 2 \<bar>?x\<bar>\<rfloor> < 53 + e"
    by (simp add: floor_less_iff)
  then have le: "?E \<le> e" by simp
  define n where "n = nat (e - ?E)"
  define P where "P = 2 powr real_of_int ?E"
  have P: "0 < P"
    by (simp add: P_def)
  have e_eq: "of_int e = of_int ?E + real n"
    using le by (simp add: n_def)
  have "2 powr real_of_int e = 2 powr (real_of_int ?E + real n)"
    by (rule arg_cong [where f = "\<lambda>t. 2 powr t", OF e_eq])
  also have "\<dots> = P * 2 ^ n"
    by (simp add: powr_add powr_realpow P_def)
  finally have A: "2 powr real_of_int e = P * 2 ^ n" .
  have quot: "?x / P = of_int (m * 2 ^ n)"
    unfolding A using P by simp
  have "nearest_float ?x = of_int (round_half_even (?x / P)) * P"
    using x0 unfolding P_def by (simp add: nearest_float_def Let_def)
  also have "\<dots> = of_int (m * 2 ^ n) * P"
    unfolding quot round_half_even_of_int ..
  also have "\<dots> = ?x"
    unfolding A by simp
  finally show ?thesis .
qed

lemma nearest_float_of_int: "\<bar>m\<bar> < 2 ^ 53 \<Longrightarrow> nearest_float (of_int m) = of_int m"
  using nearest_float_exact [of m 0] by simp

lemma nearest_float_small: "nearest_float 5 = 5" "nearest_float 3 = 3"
  using nearest_float_of_int [of 5] nearest_float_of_int [of 3] by simp_all

lemmas datetime_defs = total_seconds_def to_microseconds_def toordinal_def days_before_year_def
  days_before_month_def days_in_month_def is_leap_def

text \<open>
  C1, as stated, fails: the lines of the claim begin with \<^verbatim>\<open>Jan  5\<close>. Split at single
  spaces, their first two tokens are \<^verbatim>\<open>Jan\<close> and the empty string, so the text handed
  to \<^verbatim>\<open>strptime\<close> is \<^verbatim>\<open>2026 Jan \<close>, which does not match
  \<^verbatim>\<open>%Y I%m%d %H:%M:%S.%f\<close>: the function raises \<^verbatim>\<open>ValueError\<close>.
\<close>

theorem C1_syslog_lines_counterexample:
  "measure_pvc_creation_time (log_env_of [syslog_started, syslog_succeeded]) ''CephBlockPool''
       ''pvc-a'' 0
     = (Inl ValueError, 1)"
proof -
  have nl: "newline \<notin> set syslog_started" "newline \<notin> set syslog_succeeded"
    by (simp_all add: newline_def syslog_started_def syslog_succeeded_def)
  have m: "re_search (provision_pattern ''pvc-a'' ''started'') syslog_started"
    unfolding syslog_started_def by code_simp
  have st: "stat_text ''2026'' syslog_started = ''2026 Jan ''"
    unfolding syslog_started_def by code_simp
  have bad: "strptime ''2026 Jan '' = Inl ValueError"
    by (simp add: strptime_defs)
  have year: "now_year (log_env_of [syslog_started, syslog_succeeded]) = 2026"
    by (simp add: log_env_of_def)
  show ?thesis
    by (simp add: measure_pvc_creation_time_def get_start_creation_time_def read_log_env_of nl m
        year str_nat_2026 st bad)
qed

text \<open>
  C1, amended: for a log of exactly the two lines
  \<^verbatim>\<open>I0105 10:00:00.000000 provision pvc-a started\<close> and
  \<^verbatim>\<open>I0105 10:00:05.000000 provision pvc-a succeeded\<close>, in the format the fixed
  \<^verbatim>\<open>DATE_TIME_FORMAT\<close> parses, the creation time of \<^verbatim>\<open>pvc-a\<close> is 5 seconds (after
  two reads of the log).
\<close>

theorem C1_klog_lines_five_seconds:
  "measure_pvc_creation_time (log_env_of [a_started, a_succeeded_late]) ''CephBlockPool''
       ''pvc-a'' 0
     = (Inr 5, 2)"
proof -
  have year: "now_year (log_env_of [a_started, a_succeeded_late]) = 2026"
    by (simp add: log_env_of_def)
  have start: "get_start_creation_time (log_env_of [a_started, a_succeeded_late]) ''CephBlockPool'' ''pvc-a'' 0
      = (Inr \<lparr>year = 2026, month = 1, day = 5, hour = 10, minute = 0, second = 0, microsecond = 0\<rparr>, 1)"
    by (simp add: get_start_creation_time_def read_log_env_of no_newline matches_a year
        str_nat_2026 stat_text_a strptime_10_00_00)
  have finish: "get_end_creation_time (log_env_of [a_started, a_succeeded_late]) ''CephBlockPool'' ''pvc-a'' 1
      = (Inr \<lparr>year = 2026, month = 1, day = 5, hour = 10, minute = 0, second = 5, microsecond = 0\<rparr>, 2)"
    by (simp add: get_end_creation_time_def read_log_env_of no_newline matches_a year
        str_nat_2026 stat_text_a strptime_10_00_05)
  have dur: "total_seconds
      \<lparr>year = 2026, month = 1, day = 5, hour = 10, minute = 0, second = 5, microsecond = 0\<rparr>
      \<lparr>year = 2026, month = 1, day = 5, hour = 10, minute = 0, second = 0, microsecond = 0\<rparr> = 5"
    by (simp add: datetime_defs nearest_float_small)
  show ?thesis
    by (simp only: measure_pvc_creation_time_def start finish dur prod.case sum.case)
qed

subsection \<open>Bulk measurements\<close>

lemma read_provisioner_logs_eq:
  "read_provisioner_logs env interface k = (fst (read_provisioner_logs env interface k), Suc k)"
  by (simp add: read_provisioner_logs_def Let_def)

lemma wait_for_csi_data_step:
  "wait_for_csi_data pat env interface names logs c k =
     (if no_data pat logs names = [] then (Inr logs, k)
      else if 5 \<le> c then (Inl (UnexpectedBehaviour (no_data pat logs names)), Suc k)
      else wait_for_csi_data pat env interface names
             (fst (read_provisioner_logs env interface k)) (Suc c) (Suc k))"
proof -
  have r: "read_provisioner_logs env interface k = (fst (read_provisioner_logs env interface k), Suc k)"
    by (rule read_provisioner_logs_eq)
  show ?thesis
    by (subst wait_for_csi_data.simps, subst r) (simp add: Let_def)
qed

lemma wait_for_csi_data_reads:
  "c \<le> 5 \<Longrightarrow> snd (wait_for_csi_data pat env interface names logs c k) + c \<le> k + 6"
proof (induction "5 - c" arbitrary: c logs k)
  case 0
  then have "c = 5" by simp
  then show ?case
    by (subst wait_for_csi_data_step) simp
next
  case (Suc m)
  then have c: "c < 5" and m: "m = 5 - Suc c" by simp_all
  have ih: "snd (wait_for_csi_data pat env interface names l (Suc c) k') + Suc c \<le> k' + 6" for l k'
    using Suc.hyps(1) [OF m] c by simp
  from ih [of "fst (read_provisioner_logs env interface k)" "Suc k"] show ?case
    using c by (subst wait_for_csi_data_step) simp
qed

lemma wait_for_csi_data_Inr:
  "c \<le> 5 \<Longrightarrow> wait_for_csi_data pat env interface names logs c k = (Inr logs1, k1)
     \<Longrightarrow> no_data pat logs1 names = []"
proof (induction "5 - c" arbitrary: c logs k)
  case 0
  then have "c = 5" by simp
  with 0 show ?case
    by (subst (asm) wait_for_csi_data_step) (simp split: if_splits)
next
  case (Suc m)
  then have c: "c < 5" and m: "m = 5 - Suc c" by simp_all
  from Suc.prems(2) show ?case
    using Suc.hyps(1) [OF m] c
    by (subst (asm) wait_for_csi_data_step) (auto split: if_splits)
qed

lemma no_data_subset: "set (no_data pat logs names) \<subseteq> set names"
  by (auto simp: no_data_def)

lemma wait_for_csi_data_Inl:
  "c \<le> 5 \<Longrightarrow> wait_for_csi_data pat env interface names logs c k = (Inl e, k1)
     \<Longrightarrow> \<exists>nd. e = UnexpectedBehaviour nd \<and> nd \<noteq> [] \<and> set nd \<subseteq> set names"
proof (induction "5 - c" arbitrary: c logs k)
  case 0
  then have "c = 5" by simp
  with 0 show ?case
    by (subst (asm) wait_for_csi_data_step) (auto split: if_splits simp: no_data_subset)
next
  case (Suc m)
  then have c: "c < 5" and m: "m = 5 - Suc c" by simp_all
  from Suc.prems(2) show ?case
    using Suc.hyps(1) [OF m] c
    by (subst (asm) wait_for_csi_data_step) (auto split: if_splits)
qed

lemma wait_for_csi_data_exhausted:
  "c \<le> 5 \<Longrightarrow> no_data pat logs names \<noteq> []
     \<Longrightarrow> \<forall>j < 5 - c. no_data pat (fst (read_provisioner_logs env interface (k + j))) names \<noteq> []
     \<Longrightarrow> wait_for_csi_data pat env interface names logs c k
           = (Inl (UnexpectedBehaviour
                (no_data pat (if c = 5 then logs
                              else fst (read_provisioner_logs env interface (k + 4 - c))) names)),
              k + 6 - c)"
proof (induction "5 - c" arbitrary: c logs k)
  case 0
  then have "c = 5" by simp
  with 0 show ?case
    by (subst wait_for_csi_data_step) simp
next
  case (Suc m)
  then have c: "c < 5" and m: "m = 5 - Suc c" by simp_all
  let ?next = "fst (read_provisioner_logs env interface k)"
  have first: "no_data pat ?next names \<noteq> []"
    using Suc.prems(3) c by (metis add.right_neutral zero_less_diff)
  have rest: "\<forall>j < 5 - Suc c. no_data pat (fst (read_provisioner_logs env interface (Suc k + j))) names \<noteq> []"
  proof (intro allI impI)
    fix j assume "j < 5 - Suc c"
    then have "Suc j < 5 - c" by simp
    then have "no_data pat (fst (read_provisioner_logs env interface (k + Suc j))) names \<noteq> []"
      using Suc.prems(3) by blast
    then show "no_data pat (fst (read_provisioner_logs env interface (Suc k + j))) names \<noteq> []"
      by simp
  qed
  have ih: "wait_for_csi_data pat env interface names ?next (Suc c) (Suc k)
           = (Inl (UnexpectedBehaviour
                (no_data pat (if Suc c = 5 then ?next
                              else fst (read_provisioner_logs env interface (Suc k + 4 - Suc c))) names)),
              Suc k + 6 - Suc c)"
    using Suc.hyps(1) [OF m _ first rest] c by simp
  have idx: "Suc c = 5 \<Longrightarrow> k + 4 - c = k" "Suc k + 4 - Suc c = k + 4 - c" "Suc k + 6 - Suc c = k + 6 - c"
    using c by simp_all
  show ?case
    using c Suc.prems(2) idx
    by (subst wait_for_csi_data_step) (auto simp: ih)
qed


lemma wait_for_csi_data_Inr_source:
  "c \<le> 5 \<Longrightarrow> wait_for_csi_data pat env interface names logs c k = (Inr logs1, k1)
     \<Longrightarrow> (logs1 = logs \<and> k1 = k \<and> no_data pat logs names = [])
       \<or> (no_data pat logs names \<noteq> []
          \<and> (\<exists>j < 5 - c. logs1 = fst (read_provisioner_logs env interface (k + j))
                \<and> k1 = k + j + 1
                \<and> (\<forall>i < j. no_data pat (fst (read_provisioner_logs env interface (k + i))) names \<noteq> [])))"
proof (induction "5 - c" arbitrary: c logs k)
  case 0
  then have "c = 5" by simp
  with 0 show ?case
    by (subst (asm) wait_for_csi_data_step) (simp split: if_splits)
next
  case (Suc m)
  then have c: "c < 5" and m: "m = 5 - Suc c" and c1: "Suc c \<le> 5" by simp_all
  let ?next = "fst (read_provisioner_logs env interface k)"
  show ?case
  proof (cases "no_data pat logs names = []")
    case True
    with Suc.prems(2) show ?thesis
      by (subst (asm) wait_for_csi_data_step) simp
  next
    case False
    with Suc.prems(2) c
    have rec: "wait_for_csi_data pat env interface names ?next (Suc c) (Suc k) = (Inr logs1, k1)"
      by (subst (asm) wait_for_csi_data_step) simp
    from Suc.hyps(1) [OF m c1 rec]
    consider (now) "logs1 = ?next" "k1 = Suc k"
      | (later) j where "no_data pat ?next names \<noteq> []" "j < 5 - Suc c"
          "logs1 = fst (read_provisioner_logs env interface (Suc k + j))" "k1 = Suc k + j + 1"
          "\<forall>i < j. no_data pat (fst (read_provisioner_logs env interface (Suc k + i))) names \<noteq> []"
      by blast
    then show ?thesis
    proof cases
      case now
      have "0 < 5 - c \<and> logs1 = fst (read_provisioner_logs env interface (k + 0)) \<and> k1 = k + 0 + 1
            \<and> (\<forall>i < 0. no_data pat (fst (read_provisioner_logs env interface (k + i))) names \<noteq> [])"
        using now c by simp
      with False show ?thesis by blast
    next
      case later
      have all: "no_data pat (fst (read_provisioner_logs env interface (k + i))) names \<noteq> []"
        if "i < Suc j" for i
      proof (cases i)
        case 0
        with later(1) show ?thesis by simp
      next
        case (Suc i')
        with that have "i' < j" by simp
        with later(5) have "no_data pat (fst (read_provisioner_logs env interface (Suc k + i'))) names \<noteq> []"
          by blast
        with Suc show ?thesis by simp
      qed
      have "Suc j < 5 - c \<and> logs1 = fst (read_provisioner_logs env interface (k + Suc j))
            \<and> k1 = k + Suc j + 1
            \<and> (\<forall>i < Suc j. no_data pat (fst (read_provisioner_logs env interface (k + i))) names \<noteq> [])"
        using later(2,3,4) all by simp
      with False show ?thesis by blast
    qed
  qed
qed

lemma strptime_error: "strptime s = Inl e \<Longrightarrow> e = ValueError"
  by (auto simp: strptime_def Let_def split: list.splits prod.splits if_splits)

lemma bulk_times_Inr:
  "bulk_times pat y logs names d = Inr d'
     \<Longrightarrow> dom d' = dom d \<union> set names
       \<and> (\<forall>n. n \<notin> set names \<longrightarrow> d' n = d n)
       \<and> (\<forall>n \<in> set names. \<exists>s ss e es st et.
              filter (re_search (pat n ''started'')) logs = s # ss
              \<and> strptime (stat_text y s) = Inr st
              \<and> filter (re_search (pat n ''succeeded'')) logs = e # es
              \<and> strptime (stat_text y e) = Inr et
              \<and> d' n = Some (total_seconds et st))"
proof (induction names arbitrary: d)
  case Nil
  then show ?case by simp
next
  case (Cons a names)
  from Cons.prems obtain s ss e es st et where
    s: "filter (re_search (pat a ''started'')) logs = s # ss"
    and st: "strptime (stat_text y s) = Inr st"
    and e: "filter (re_search (pat a ''succeeded'')) logs = e # es"
    and et: "strptime (stat_text y e) = Inr et"
    and rec: "bulk_times pat y logs names (d(a \<mapsto> total_seconds et st)) = Inr d'"
    by (auto split: list.splits sum.splits)
  note ih = Cons.IH [OF rec]
  have a: "d' a = Some (total_seconds et st)"
  proof (cases "a \<in> set names")
    case True
    with ih obtain s' ss' e' es' st' et' where
      "filter (re_search (pat a ''started'')) logs = s' # ss'"
      "strptime (stat_text y s') = Inr st'"
      "filter (re_search (pat a ''succeeded'')) logs = e' # es'"
      "strptime (stat_text y e') = Inr et'"
      "d' a = Some (total_seconds et' st')"
      by blast
    with s st e et show ?thesis by simp
  next
    case False
    with ih show ?thesis by simp
  qed
  have dom: "dom d' = dom d \<union> set (a # names)"
    using ih by auto
  have keep: "\<forall>n. n \<notin> set (a # names) \<longrightarrow> d' n = d n"
    using ih by auto
  have vals: "\<forall>n \<in> set (a # names). \<exists>s ss e es st et.
              filter (re_search (pat n ''started'')) logs = s # ss
              \<and> strptime (stat_text y s) = Inr st
              \<and> filter (re_search (pat n ''succeeded'')) logs = e # es
              \<and> strptime (stat_text y e) = Inr et
              \<and> d' n = Some (total_seconds et st)"
  proof
    fix n assume "n \<in> set (a # names)"
    then consider "n = a" | "n \<in> set names" by auto
    then show "\<exists>s ss e es st et.
              filter (re_search (pat n ''started'')) logs = s # ss
              \<and> strptime (stat_text y s) = Inr st
              \<and> filter (re_search (pat n ''succeeded'')) logs = e # es
              \<and> strptime (stat_text y e) = Inr et
              \<and> d' n = Some (total_seconds et st)"
    proof cases
      case 1
      with s st e et a show ?thesis by blast
    next
      case 2
      with ih show ?thesis by blast
    qed
  qed
  from dom keep vals show ?case by blast
qed

lemma bulk_times_Inl:
  "no_data pat logs names = [] \<Longrightarrow> bulk_times pat y logs names d = Inl e \<Longrightarrow> e = ValueError"
proof (induction names arbitrary: d)
  case Nil
  then show ?case by simp
next
  case (Cons a names)
  from Cons.prems(1) have a: "filter (re_search (pat a ''started'')) logs \<noteq> []"
    "filter (re_search (pat a ''succeeded'')) logs \<noteq> []"
    and rest: "no_data pat logs names = []"
    by (auto simp: no_data_def split: if_splits)
  from Cons.prems(2) a show ?case
    by (auto split: list.splits sum.splits dest: strptime_error Cons.IH [OF rest])
qed


lemma measure_bulk_unfold:
  "measure_bulk pat env interface names k =
     (case wait_for_csi_data pat env interface names (fst (read_provisioner_logs env interface k)) 0 (Suc k) of
        (Inl e, k1) \<Rightarrow> (Inl e, k1)
      | (Inr logs, k1) \<Rightarrow> (bulk_times pat (str_nat (now_year env)) logs names Map.empty, k1))"
  by (simp add: measure_bulk_def read_provisioner_logs_def Let_def)

lemma measure_bulk_reads:
  "snd (measure_bulk pat env interface names k) \<le> k + 7"
proof -
  have "snd (measure_bulk pat env interface names k)
        = snd (wait_for_csi_data pat env interface names (fst (read_provisioner_logs env interface k)) 0 (Suc k))"
    by (simp add: measure_bulk_unfold split: prod.splits sum.splits)
  then show ?thesis
    using wait_for_csi_data_reads [of 0 pat env interface names "fst (read_provisioner_logs env interface k)" "Suc k"]
    by simp
qed

lemma measure_bulk_exhausted:
  assumes "\<forall>j \<le> 5. no_data pat (fst (read_provisioner_logs env interface (k + j))) names \<noteq> []"
  shows "measure_bulk pat env interface names k
         = (Inl (UnexpectedBehaviour (no_data pat (fst (read_provisioner_logs env interface (k + 5))) names)),
            k + 7)"
proof -
  have first: "no_data pat (fst (read_provisioner_logs env interface k)) names \<noteq> []"
    using assms by (metis add.right_neutral zero_le)
  have rest: "\<forall>j < 5 - 0. no_data pat (fst (read_provisioner_logs env interface (Suc k + j))) names \<noteq> []"
  proof (intro allI impI)
    fix j :: nat assume "j < 5 - 0"
    then have "Suc j \<le> 5" by simp
    with assms have "no_data pat (fst (read_provisioner_logs env interface (k + Suc j))) names \<noteq> []"
      by blast
    then show "no_data pat (fst (read_provisioner_logs env interface (Suc k + j))) names \<noteq> []"
      by simp
  qed
  have "wait_for_csi_data pat env interface names (fst (read_provisioner_logs env interface k)) 0 (Suc k)
        = (Inl (UnexpectedBehaviour
                 (no_data pat (fst (read_provisioner_logs env interface (k + 5))) names)), k + 7)"
    using wait_for_csi_data_exhausted [OF _ first rest] by (simp add: add.commute)
  then show ?thesis
    by (simp add: measure_bulk_unfold add.commute)
qed

lemma measure_bulk_Inl:
  assumes "fst (measure_bulk pat env interface names k) = Inl e"
  shows "e = ValueError \<or> (\<exists>nd. e = UnexpectedBehaviour nd \<and> nd \<noteq> [] \<and> set nd \<subseteq> set names)"
proof (cases "wait_for_csi_data pat env interface names (fst (read_provisioner_logs env interface k)) 0 (Suc k)")
  case (Pair r k1)
  show ?thesis
  proof (cases r)
    case (Inl e')
    with Pair assms have "e' = e" by (simp add: measure_bulk_unfold)
    with Pair Inl have w: "wait_for_csi_data pat env interface names
        (fst (read_provisioner_logs env interface k)) 0 (Suc k) = (Inl e, k1)"
      by simp
    have "\<exists>nd. e = UnexpectedBehaviour nd \<and> nd \<noteq> [] \<and> set nd \<subseteq> set names"
      by (rule wait_for_csi_data_Inl [OF _ w]) simp
    then show ?thesis by simp
  next
    case (Inr logs1)
    with Pair have w: "wait_for_csi_data pat env interface names
        (fst (read_provisioner_logs env interface k)) 0 (Suc k) = (Inr logs1, k1)"
      by simp
    have full: "no_data pat logs1 names = []"
      by (rule wait_for_csi_data_Inr [OF _ w]) simp
    from w assms have "bulk_times pat (str_nat (now_year env)) logs1 names Map.empty = Inl e"
      by (simp add: measure_bulk_unfold)
    with full have "e = ValueError" by (rule bulk_times_Inl)
    then show ?thesis by simp
  qed
qed

lemma measure_bulk_Inr:
  assumes "fst (measure_bulk pat env interface names k) = Inr d"
  shows "\<exists>j \<le> 5. snd (measure_bulk pat env interface names k) = k + j + 1
           \<and> (\<forall>i < j. no_data pat (fst (read_provisioner_logs env interface (k + i))) names \<noteq> [])
           \<and> no_data pat (fst (read_provisioner_logs env interface (k + j))) names = []
           \<and> dom d = set names
           \<and> (\<forall>n \<in> set names. \<exists>s ss e es st et.
                  filter (re_search (pat n ''started'')) (fst (read_provisioner_logs env interface (k + j))) = s # ss
                  \<and> strptime (stat_text (str_nat (now_year env)) s) = Inr st
                  \<and> filter (re_search (pat n ''succeeded'')) (fst (read_provisioner_logs env interface (k + j))) = e # es
                  \<and> strptime (stat_text (str_nat (now_year env)) e) = Inr et
                  \<and> d n = Some (total_seconds et st))"
proof (cases "wait_for_csi_data pat env interface names (fst (read_provisioner_logs env interface k)) 0 (Suc k)")
  case (Pair r k1)
  show ?thesis
  proof (cases r)
    case (Inl e')
    with Pair assms show ?thesis by (simp add: measure_bulk_unfold)
  next
    case (Inr logs1)
    with Pair have w: "wait_for_csi_data pat env interface names
        (fst (read_provisioner_logs env interface k)) 0 (Suc k) = (Inr logs1, k1)"
      by simp
    have full: "no_data pat logs1 names = []"
      by (rule wait_for_csi_data_Inr [OF _ w]) simp
    have snd: "snd (measure_bulk pat env interface names k) = k1"
      using w by (simp add: measure_bulk_unfold)
    have bt: "bulk_times pat (str_nat (now_year env)) logs1 names Map.empty = Inr d"
      using w assms by (simp add: measure_bulk_unfold)
    have "\<exists>j \<le> 5. logs1 = fst (read_provisioner_logs env interface (k + j)) \<and> k1 = k + j + 1
            \<and> (\<forall>i < j. no_data pat (fst (read_provisioner_logs env interface (k + i))) names \<noteq> [])"
    proof -
      have "(logs1 = fst (read_provisioner_logs env interface k) \<and> k1 = Suc k
              \<and> no_data pat (fst (read_provisioner_logs env interface k)) names = [])
            \<or> (no_data pat (fst (read_provisioner_logs env interface k)) names \<noteq> []
               \<and> (\<exists>j < 5 - 0. logs1 = fst (read_provisioner_logs env interface (Suc k + j))
                     \<and> k1 = Suc k + j + 1
                     \<and> (\<forall>i < j. no_data pat (fst (read_provisioner_logs env interface (Suc k + i))) names \<noteq> [])))"
        by (rule wait_for_csi_data_Inr_source [OF _ w]) simp
      then consider (now) "logs1 = fst (read_provisioner_logs env interface k)" "k1 = Suc k"
        | (later) j where "no_data pat (fst (read_provisioner_logs env interface k)) names \<noteq> []"
            "j < 5" "logs1 = fst (read_provisioner_logs env interface (Suc k + j))" "k1 = Suc k + j + 1"
            "\<forall>i < j. no_data pat (fst (read_provisioner_logs env interface (Suc k + i))) names \<noteq> []"
        by auto
      then show ?thesis
      proof cases
        case now
        then have "(0::nat) \<le> 5 \<and> logs1 = fst (read_provisioner_logs env interface (k + 0)) \<and> k1 = k + 0 + 1
            \<and> (\<forall>i < 0. no_data pat (fst (read_provisioner_logs env interface (k + i))) names \<noteq> [])"
          by simp
        then show ?thesis by blast
      next
        case later
        have all: "no_data pat (fst (read_provisioner_logs env interface (k + i))) names \<noteq> []"
          if "i < Suc j" for i
        proof (cases i)
          case 0
          with later(1) show ?thesis by simp
        next
          case (Suc i')
          with that have "i' < j" by simp
          with later(5) have "no_data pat (fst (read_provisioner_logs env interface (Suc k + i'))) names \<noteq> []"
            by blast
          with Suc show ?thesis by simp
        qed
        have "Suc j \<le> 5 \<and> logs1 = fst (read_provisioner_logs env interface (k + Suc j))
              \<and> k1 = k + Suc j + 1
              \<and> (\<forall>i < Suc j. no_data pat (fst (read_provisioner_logs env interface (k + i))) names \<noteq> [])"
          using later(2,3,4) all by simp
        then show ?thesis by blast
      qed
    qed
    then obtain j where j: "j \<le> 5" "logs1 = fst (read_provisioner_logs env interface (k + j))"
      "k1 = k + j + 1"
      "\<forall>i < j. no_data pat (fst (read_provisioner_logs env interface (k + i))) names \<noteq> []"
      by blast
    from bulk_times_Inr [OF bt] have dom: "dom d = set names"
      and vals: "\<forall>n \<in> set names. \<exists>s ss e es st et.
              filter (re_search (pat n ''started'')) logs1 = s # ss
              \<and> strptime (stat_text (str_nat (now_year env)) s) = Inr st
              \<and> filter (re_search (pat n ''succeeded'')) logs1 = e # es
              \<and> strptime (stat_text (str_nat (now_year env)) e) = Inr et
              \<and> d n = Some (total_seconds et st)"
      by simp_all
    have k1: "snd (measure_bulk pat env interface names k) = k + j + 1"
      using snd j(3) by simp
    show ?thesis
      using j(1) k1 j(4) full dom vals unfolding j(2) by blast
  qed
qed


lemma matches_pv:
  "re_search (delete_pattern ''pv-a'' ''started'') pv_delete_started"
  "\<not> re_search (delete_pattern ''pv-a'' ''started'') pv_delete_succeeded"
  "\<not> re_search (delete_pattern ''pv-a'' ''succeeded'') pv_delete_started"
  "re_search (delete_pattern ''pv-a'' ''succeeded'') pv_delete_succeeded"
  unfolding pv_delete_started_def pv_delete_succeeded_def by code_simp+

lemma stat_text_pv:
  "stat_text ''2026'' pv_delete_started = ''2026 I0105 10:00:00.000000''"
  "stat_text ''2026'' pv_delete_succeeded = ''2026 I0105 10:00:03.000000''"
  unfolding pv_delete_started_def pv_delete_succeeded_def by code_simp+

lemma strptime_10_00_03:
  "strptime ''2026 I0105 10:00:03.000000''
     = Inr \<lparr>year = 2026, month = 1, day = 5, hour = 10, minute = 0, second = 3, microsecond = 0\<rparr>"
  by (simp add: strptime_defs)

text \<open>
  C8, for \<^verbatim>\<open>measure_pvc_creation_time_bulk\<close> and \<^verbatim>\<open>measure_pv_deletion_time_bulk\<close> and
  every list of names without special characters of regular expressions. The function
  reads the logs at most seven times: once, and then at most six more times. When the
  first six logs read (numbers \<open>k\<close> to \<open>k + 5\<close>) all lack a \<^verbatim>\<open>started\<close> or a
  \<^verbatim>\<open>succeeded\<close> line for some name, it reads a seventh time and raises
  \<^verbatim>\<open>UnexpectedBehaviour\<close> with the names that lack data in the sixth log. Every exception
  it raises is that one, with a non-empty list of requested names, or the \<^verbatim>\<open>ValueError\<close>
  of a time stamp that does not parse. When it returns a dictionary, it has stopped
  reading at the first log in which every name has both lines, the keys of the dictionary
  are exactly the requested names, and the value of each name is the time between the
  first \<^verbatim>\<open>started\<close> line and the first \<^verbatim>\<open>succeeded\<close> line of that name in that log.
\<close>

theorem C8_bulk_refetch_bounded:
  "(f, pat) \<in> {(measure_pvc_creation_time_bulk, provision_pattern),
               (measure_pv_deletion_time_bulk, delete_pattern)}
   \<Longrightarrow> list_all regex_free names
   \<Longrightarrow> snd (f env interface names k) \<le> k + 7
     \<and> ((\<forall>j \<le> 5. no_data pat (fst (read_provisioner_logs env interface (k + j))) names \<noteq> [])
          \<longrightarrow> f env interface names k
              = (Inl (UnexpectedBehaviour
                       (no_data pat (fst (read_provisioner_logs env interface (k + 5))) names)),
                 k + 7))
     \<and> (\<forall>e. fst (f env interface names k) = Inl e
          \<longrightarrow> e = ValueError
              \<or> (\<exists>nd. e = UnexpectedBehaviour nd \<and> nd \<noteq> [] \<and> set nd \<subseteq> set names))
     \<and> (\<forall>d. fst (f env interface names k) = Inr d
          \<longrightarrow> (\<exists>j \<le> 5. snd (f env interface names k) = k + j + 1
                 \<and> (\<forall>i < j. no_data pat (fst (read_provisioner_logs env interface (k + i))) names \<noteq> [])
                 \<and> no_data pat (fst (read_provisioner_logs env interface (k + j))) names = []
                 \<and> dom d = set names
                 \<and> (\<forall>n \<in> set names. \<exists>s ss e es st et.
                        filter (re_search (pat n ''started''))
                          (fst (read_provisioner_logs env interface (k + j))) = s # ss
                        \<and> strptime (stat_text (str_nat (now_year env)) s) = Inr st
                        \<and> filter (re_search (pat n ''succeeded''))
                            (fst (read_provisioner_logs env interface (k + j))) = e # es
                        \<and> strptime (stat_text (str_nat (now_year env)) e) = Inr et
                        \<and> d n = Some (total_seconds et st))))"
proof -
  assume "(f, pat) \<in> {(measure_pvc_creation_time_bulk, provision_pattern),
               (measure_pv_deletion_time_bulk, delete_pattern)}"
  moreover have "measure_pvc_creation_time_bulk = measure_bulk provision_pattern"
    and "measure_pv_deletion_time_bulk = measure_bulk delete_pattern"
    by (simp_all add: fun_eq_iff measure_pvc_creation_time_bulk_def measure_pv_deletion_time_bulk_def)
  ultimately have f: "f = measure_bulk pat"
    by auto
  show ?thesis
    unfolding f
    using measure_bulk_reads [of pat env interface names k]
      measure_bulk_exhausted [of pat env interface k names]
      measure_bulk_Inl [of pat env interface names k]
      measure_bulk_Inr [of pat env interface names k]
    by blast
qed

theorem C8_bulk_refetch_bounded_witness:
  "list_all regex_free [''pvc-a'']
   \<and> no_data provision_pattern
       (fst (read_provisioner_logs (log_env_of [a_started]) ''CephBlockPool'' 5)) [''pvc-a'']
       = [''pvc-a'']
   \<and> measure_pvc_creation_time_bulk (log_env_of [a_started]) ''CephBlockPool'' [''pvc-a''] 0
       = (Inl (UnexpectedBehaviour [''pvc-a'']), 7)
   \<and> list_all regex_free [''pv-a'']
   \<and> measure_pv_deletion_time_bulk (log_env_of [pv_delete_started, pv_delete_succeeded])
         ''CephBlockPool'' [''pv-a''] 0
       = (Inr [''pv-a'' \<mapsto> 3], 1)
   \<and> dom [''pv-a'' \<mapsto> 3 :: real] = set [''pv-a'']"
proof -
  have free: "list_all regex_free [''pvc-a'']" "list_all regex_free [''pv-a'']"
    by (simp_all add: regex_free_def re_special_def)
  have logs: "fst (read_provisioner_logs (log_env_of [a_started]) ''CephBlockPool'' j) = [a_started]"
    for j
    by (simp add: read_log_env_of no_newline)
  have nd: "no_data provision_pattern [a_started] [''pvc-a''] = [''pvc-a'']"
    by (simp add: no_data_def matches_a)
  have absent: "\<forall>j \<le> 5. no_data provision_pattern
      (fst (read_provisioner_logs (log_env_of [a_started]) ''CephBlockPool'' (0 + j))) [''pvc-a''] \<noteq> []"
    by (simp add: logs nd)
  have nl: "newline \<notin> set pv_delete_started" "newline \<notin> set pv_delete_succeeded"
    by (simp_all add: newline_def pv_delete_started_def pv_delete_succeeded_def)
  have pv_logs: "fst (read_provisioner_logs (log_env_of [pv_delete_started, pv_delete_succeeded])
      ''CephBlockPool'' j) = [pv_delete_started, pv_delete_succeeded]" for j
    by (simp add: read_log_env_of nl)
  have full: "no_data delete_pattern [pv_delete_started, pv_delete_succeeded] [''pv-a''] = []"
    by (simp add: no_data_def matches_pv)
  have year: "now_year (log_env_of [pv_delete_started, pv_delete_succeeded]) = 2026"
    by (simp add: log_env_of_def)
  have dur: "total_seconds
      \<lparr>year = 2026, month = Suc 0, day = 5, hour = 10, minute = 0, second = 3, microsecond = 0\<rparr>
      \<lparr>year = 2026, month = Suc 0, day = 5, hour = 10, minute = 0, second = 0, microsecond = 0\<rparr> = 3"
    by (simp add: datetime_defs nearest_float_small)
  have wait: "wait_for_csi_data delete_pattern (log_env_of [pv_delete_started, pv_delete_succeeded])
      ''CephBlockPool'' [''pv-a''] [pv_delete_started, pv_delete_succeeded] 0 (Suc 0)
      = (Inr [pv_delete_started, pv_delete_succeeded], Suc 0)"
    by (subst wait_for_csi_data_step) (simp add: full)
  have times: "bulk_times delete_pattern ''2026'' [pv_delete_started, pv_delete_succeeded] [''pv-a'']
      Map.empty = Inr [''pv-a'' \<mapsto> 3]"
    by (simp add: matches_pv stat_text_pv strptime_10_00_00 strptime_10_00_03 dur)
  have deleted: "measure_pv_deletion_time_bulk (log_env_of [pv_delete_started, pv_delete_succeeded])
         ''CephBlockPool'' [''pv-a''] 0 = (Inr [''pv-a'' \<mapsto> 3], 1)"
    by (simp only: measure_pv_deletion_time_bulk_def measure_bulk_unfold pv_logs wait year
        str_nat_2026 times prod.case sum.case One_nat_def)
  show ?thesis
    using free absent deleted
      C8_bulk_refetch_bounded [of measure_pvc_creation_time_bulk provision_pattern "[''pvc-a'']"
        "log_env_of [a_started]" "''CephBlockPool''" 0]
      C8_bulk_refetch_bounded [of measure_pv_deletion_time_bulk delete_pattern "[''pv-a'']"
        "log_env_of [pv_delete_started, pv_delete_succeeded]" "''CephBlockPool''" 0]
    by (simp add: logs nd)
qed

subsection \<open>Batch mode of \<^verbatim>\<open>get_provision_time\<close>\<close>










lemma matches_b:
  "\<not> re_search (provision_pattern ''pvc-b'' ''started'') a_started"
  "\<not> re_search (provision_pattern ''pvc-b'' ''started'') a_started_unpadded"
  "\<not> re_search (provision_pattern ''pvc-b'' ''started'') a_succeeded"
  "re_search (provision_pattern ''pvc-b'' ''started'') b_started"
  "\<not> re_search (provision_pattern ''pvc-b'' ''started'') b_succeeded"
  "\<not> re_search (provision_pattern ''pvc-b'' ''succeeded'') a_started"
  "\<not> re_search (provision_pattern ''pvc-b'' ''succeeded'') a_started_unpadded"
  "\<not> re_search (provision_pattern ''pvc-b'' ''succeeded'') a_succeeded"
  "\<not> re_search (provision_pattern ''pvc-b'' ''succeeded'') b_started"
  "re_search (provision_pattern ''pvc-b'' ''succeeded'') b_succeeded"
  unfolding a_started_def a_started_unpadded_def a_succeeded_def b_started_def b_succeeded_def
  by code_simp+

lemma matches_a_other:
  "re_search (provision_pattern ''pvc-a'' ''started'') a_started_unpadded"
  "\<not> re_search (provision_pattern ''pvc-a'' ''succeeded'') a_started_unpadded"
  "\<not> re_search (provision_pattern ''pvc-a'' ''started'') b_started"
  "\<not> re_search (provision_pattern ''pvc-a'' ''started'') b_succeeded"
  "\<not> re_search (provision_pattern ''pvc-a'' ''succeeded'') b_started"
  "\<not> re_search (provision_pattern ''pvc-a'' ''succeeded'') b_succeeded"
  unfolding a_started_unpadded_def b_started_def b_succeeded_def
  by code_simp+







lemma found_batch:
  "filter (re_search (provision_pattern ''pvc-a'' ''started''))
     [a_started, a_succeeded, b_started, b_succeeded] = [a_started]"
  "filter (re_search (provision_pattern ''pvc-b'' ''started''))
     [a_started, a_succeeded, b_started, b_succeeded] = [b_started]"
  "filter (re_search (provision_pattern ''pvc-a'' ''succeeded''))
     [a_started, a_succeeded, b_started, b_succeeded] = [a_succeeded]"
  "filter (re_search (provision_pattern ''pvc-b'' ''succeeded''))
     [a_started, a_succeeded, b_started, b_succeeded] = [b_succeeded]"
  "filter (re_search (provision_pattern ''pvc-a'' ''started''))
     [a_started_unpadded, a_succeeded, b_started, b_succeeded] = [a_started_unpadded]"
  "filter (re_search (provision_pattern ''pvc-b'' ''started''))
     [a_started_unpadded, a_succeeded, b_started, b_succeeded] = [b_started]"
  by (simp_all add: matches_a matches_b matches_a_other)









end
